theory Spec2Isabelle
  imports Main "HOL-Library.Word" "HOL-Library.AList" "HOL-Library.Char_ord"
    "HOL-Library.List_Lexorder"
begin

section \<open>The custom admission plugin\<close>

text \<open>
  The repository holds three versions of \<^verbatim>\<open>CustomAdmission.Admit\<close>:
  \<^item> \<^verbatim>\<open>pkg/admission/customadmission/mutating_plugin.go\<close>, first version: limits read
    from the tenant's entitlements, counters \<^verbatim>\<open>aspianHACBSUsedQuota\<close> and
    \<^verbatim>\<open>bspianAppStudioUsedQuota\<close>, both starting at 0;
  \<^item> the same file, second version: checks by object name, counters
    \<^verbatim>\<open>aspianHACBSBindQuota\<close> and \<^verbatim>\<open>bspainAppStudioBindQuota\<close>, both starting at 5;
  \<^item> \<^verbatim>\<open>docs/content/en/main/concepts/syncer.md\<close>: checks by organization group and
    kind, counters \<^verbatim>\<open>aspianHACBSQuota\<close> and \<^verbatim>\<open>bspainAppStudioQuota\<close>, both starting at 1.

  The counters are package-level variables of Go type \<^verbatim>\<open>int\<close>, 64 bits wide on the
  platforms kcp is built for; \<^verbatim>\<open>+\<close> and \<^verbatim>\<open>-\<close> wrap around, comparisons are signed.
  Every handler is a function from the counters before the call to the result and the
  counters after it.
\<close>

type_synonym go_int = "64 word"

subsection \<open>Admission attributes, results\<close>

text \<open>
  \<^verbatim>\<open>a.GetObject()\<close> is a \<^verbatim>\<open>runtime.Object\<close>; the handlers assert it to
  \<^verbatim>\<open>metav1.Object\<close> and read at most its name.
\<close>

datatype runtime_Object = NilObject | MetaObject string | OtherObject

record user_Info =
  GetName :: string
  GetGroups :: "string list"

text \<open>
  \<^verbatim>\<open>a.GetUserInfo()\<close> is an interface value and may be nil; \<open>GetKind\<close> stands for
  \<^verbatim>\<open>a.GetKind().Kind\<close>.
\<close>

record Attributes =
  GetSubresource :: string
  GetObject :: runtime_Object
  GetUserInfo :: "user_Info option"
  GetKind :: string

datatype error =
    NotMetaObject           \<comment> \<open>\<^verbatim>\<open>got type %T, expected metav1.Object\<close>\<close>
  | IndexerError            \<comment> \<open>the error of \<^verbatim>\<open>entitlementIndexer.ByIndex\<close>\<close>
  | QuotaCheckFailed        \<comment> \<open>\<^verbatim>\<open>Custom admission Controller: Forbidden. Quota check failed\<close>\<close>
  | NoQuotaAvailable        \<comment> \<open>\<^verbatim>\<open>custom admission for Quota forbidden ... No quota available\<close>\<close>
  | NoEntitlementPresent    \<comment> \<open>\<^verbatim>\<open>custom admission forbidden ... no entitlement present\<close>\<close>
  | NoClusterInContext      \<comment> \<open>the error of \<^verbatim>\<open>genericapirequest.ClusterNameFrom\<close>\<close>

datatype panic = NilPointerDereference | IndexOutOfRange

text \<open>
  A call returns its \<^verbatim>\<open>err\<close> (\<open>None\<close> is \<^verbatim>\<open>nil\<close>: the request is admitted) or
  panics. The counters keep what was written to them before the panic: the API server
  recovers a panicking handler and goes on serving.
\<close>

datatype result = Returns "error option" | Panics panic

definition admitted :: "result \<Rightarrow> bool" where
  "admitted r = (r = Returns None)"

fun isPresentInArray :: "string \<Rightarrow> string list \<Rightarrow> bool" where
  "isPresentInArray input [] = False"
| "isPresentInArray input (str # arr) = (if input = str then True else isPresentInArray input arr)"

definition HasPrefix :: "string \<Rightarrow> string \<Rightarrow> bool" where
  "HasPrefix s pre = (take (length pre) s = pre)"

text \<open>\<^verbatim>\<open>getTenantId\<close> of the first version: the rest of the first group that starts with \<^verbatim>\<open>org/\<close>.\<close>

fun getTenantId_groups :: "string list \<Rightarrow> string" where
  "getTenantId_groups [] = ''''"
| "getTenantId_groups (grp # grps) =
     (if HasPrefix grp ''org/'' then drop 4 grp else getTenantId_groups grps)"

definition getTenantId :: "user_Info \<Rightarrow> string" where
  "getTenantId usr = getTenantId_groups (GetGroups usr)"

subsection \<open>\<^verbatim>\<open>strconv.Atoi\<close>\<close>

text \<open>
  \<^verbatim>\<open>strconv.Atoi\<close> belongs to the Go standard library, not to the repository. The handler
  drops its error, so only the value matters: 0 on a syntax error, the nearest bound of
  \<^verbatim>\<open>int\<close> on a range error. \<open>ParseUint_loop\<close> is the digit loop of \<^verbatim>\<open>strconv.ParseUint\<close>
  in base 10 at 64 bits (\<open>None\<close>: syntax error), \<open>Atoi\<close> the sign handling and the bounds
  of \<^verbatim>\<open>strconv.ParseInt\<close>.
\<close>

definition maxUint64 :: nat where
  "maxUint64 = 2 ^ 64 - 1"

definition isDigit :: "char \<Rightarrow> bool" where
  "isDigit c = (48 \<le> (of_char c :: nat) \<and> (of_char c :: nat) \<le> 57)"

fun ParseUint_loop :: "nat \<Rightarrow> string \<Rightarrow> nat option" where
  "ParseUint_loop n [] = Some n"
| "ParseUint_loop n (c # cs) =
     (if \<not> isDigit c then None
      else if n \<ge> maxUint64 div 10 + 1 then Some maxUint64
      else if n * 10 + (of_char c - 48) > maxUint64 then Some maxUint64
      else ParseUint_loop (n * 10 + (of_char c - 48)) cs)"

definition ParseUint :: "string \<Rightarrow> nat option" where
  "ParseUint s = (if s = [] then None else ParseUint_loop 0 s)"

definition Atoi :: "string \<Rightarrow> go_int" where
  "Atoi s =
     (case s of
        [] \<Rightarrow> 0
      | c # cs \<Rightarrow>
          (let neg = (c = CHR ''-'');
               s' = (if c = CHR ''+'' \<or> c = CHR ''-'' then cs else s)
           in case ParseUint s' of
                None \<Rightarrow> 0
              | Some un \<Rightarrow>
                  if \<not> neg \<and> un \<ge> 2 ^ 63 then 2 ^ 63 - 1
                  else if neg \<and> un > 2 ^ 63 then - (2 ^ 63)
                  else if neg then - of_nat un
                  else of_nat un))"

subsection \<open>First version: limits from the tenant's entitlements\<close>

text \<open>
  The \<^verbatim>\<open>Entitlement\<close> API type is declared outside the sources; the handler reads
  \<^verbatim>\<open>entitlement.Spec.QuotaItems[0].Limits\<close>, a string.
\<close>

record QuotaItem =
  Limits :: string

record EntitlementSpec =
  QuotaItems :: "QuotaItem list"

record Entitlement =
  Spec :: EntitlementSpec

text \<open>
  \<^verbatim>\<open>m.entitlementIndexer.ByIndex(indexers.ByLogicalCluster, consumerCluster)\<close>: the
  informer's index, from a logical cluster's name to its entitlements or an error.
\<close>

record CustomAdmission =
  entitlementIndexer :: "string \<Rightarrow> error + Entitlement list"

record UsedQuota =
  aspianHACBSUsedQuota :: go_int
  bspianAppStudioUsedQuota :: go_int

definition init_UsedQuota :: UsedQuota where
  "init_UsedQuota = \<lparr>aspianHACBSUsedQuota = 0, bspianAppStudioUsedQuota = 0\<rparr>"

text \<open>\<^verbatim>\<open>xs[0]\<close> panics on an empty slice.\<close>

definition index0 :: "'a list \<Rightarrow> 'a option" where
  "index0 xs = (case xs of [] \<Rightarrow> None | x # _ \<Rightarrow> Some x)"

text \<open>
  The two blocks of the loop body. \<open>None\<close>: the block falls through to the next
  statement; \<open>Some r\<close>: the call ends with \<open>r\<close>.
\<close>

definition aspian_block :: "user_Info \<Rightarrow> string \<Rightarrow> Entitlement \<Rightarrow> UsedQuota \<Rightarrow> result option \<times> UsedQuota" where
  "aspian_block user kind entitlement q =
     (if isPresentInArray ''org/aspian'' (GetGroups user) then
        if kind = ''Pipeline'' then
          (case index0 (QuotaItems (Spec entitlement)) of
             None \<Rightarrow> (Some (Panics IndexOutOfRange), q)
           | Some item \<Rightarrow>
               let configuredLimit = Atoi (Limits item) in
               if aspianHACBSUsedQuota q <s configuredLimit
               then (None, q\<lparr>aspianHACBSUsedQuota := aspianHACBSUsedQuota q + 1\<rparr>)
               else (Some (Returns (Some QuotaCheckFailed)), q))
        else (None, q)
      else (None, q))"

definition bspian_block :: "user_Info \<Rightarrow> string \<Rightarrow> Entitlement \<Rightarrow> UsedQuota \<Rightarrow> result option \<times> UsedQuota" where
  "bspian_block user kind entitlement q =
     (if isPresentInArray ''org/bspian'' (GetGroups user) then
        if kind = ''App'' then
          (case index0 (QuotaItems (Spec entitlement)) of
             None \<Rightarrow> (Some (Panics IndexOutOfRange), q)
           | Some item \<Rightarrow>
               let configuredLimit = Atoi (Limits item) in
               if bspianAppStudioUsedQuota q <s configuredLimit
               then (None, q\<lparr>bspianAppStudioUsedQuota := bspianAppStudioUsedQuota q + 1\<rparr>)
               else (Some (Returns (Some QuotaCheckFailed)), q))
        else (None, q)
      else (None, q))"

text \<open>
  \<^verbatim>\<open>for _, obj := range entitlements\<close>. After the loop the named result \<^verbatim>\<open>err\<close> is
  still nil (the loop's \<^verbatim>\<open>err\<close> is a variable of the inner block), so the call returns nil.
\<close>

fun entitlements_loop :: "user_Info \<Rightarrow> string \<Rightarrow> Entitlement list \<Rightarrow> UsedQuota \<Rightarrow> result \<times> UsedQuota" where
  "entitlements_loop user kind [] q = (Returns None, q)"
| "entitlements_loop user kind (entitlement # rest) q =
     (case aspian_block user kind entitlement q of
        (Some r, q1) \<Rightarrow> (r, q1)
      | (None, q1) \<Rightarrow>
          (case bspian_block user kind entitlement q1 of
             (Some r, q2) \<Rightarrow> (r, q2)
           | (None, q2) \<Rightarrow> entitlements_loop user kind rest q2))"

definition Admit_entitlement :: "CustomAdmission \<Rightarrow> Attributes \<Rightarrow> UsedQuota \<Rightarrow> result \<times> UsedQuota" where
  "Admit_entitlement m a q =
     (if GetSubresource a \<noteq> '''' then (Returns None, q)
      else case GetObject a of
        MetaObject name \<Rightarrow>
          (case GetUserInfo a of
             None \<Rightarrow> (Panics NilPointerDereference, q)
           | Some user \<Rightarrow>
               let org = getTenantId user in
               if org \<noteq> '''' then
                 (case entitlementIndexer m (''root:'' @ org) of
                    Inl err \<Rightarrow> (Returns (Some err), q)
                  | Inr entitlements \<Rightarrow> entitlements_loop user (GetKind a) entitlements q)
               else (Returns None, q))
      | NilObject \<Rightarrow> (Returns (Some NotMetaObject), q)
      | OtherObject \<Rightarrow> (Returns (Some NotMetaObject), q))"

subsection \<open>Second version: checks by object name\<close>

text \<open>
  \<^verbatim>\<open>genericapirequest.ClusterNameFrom(ctx)\<close> is declared outside the sources: it gives the
  logical cluster the request context carries, or an error when there is none. The
  handler assigns that error to its named result \<^verbatim>\<open>err\<close>
  (\<^verbatim>\<open>clusterName, err := ...\<close> in the function's outermost block).
\<close>

record Context =
  cluster :: "string option"

definition ClusterNameFrom :: "Context \<Rightarrow> error + string" where
  "ClusterNameFrom ctx = (case cluster ctx of None \<Rightarrow> Inl NoClusterInContext | Some c \<Rightarrow> Inr c)"

record BindQuota =
  aspianHACBSBindQuota :: go_int
  bspainAppStudioBindQuota :: go_int

definition init_BindQuota :: BindQuota where
  "init_BindQuota = \<lparr>aspianHACBSBindQuota = 5, bspainAppStudioBindQuota = 5\<rparr>"

text \<open>Each block gets \<^verbatim>\<open>err\<close> and the counters and hands both on.\<close>

definition hacbs_block :: "user_Info \<Rightarrow> string \<Rightarrow> error option \<times> BindQuota \<Rightarrow> error option \<times> BindQuota" where
  "hacbs_block user name eq =
     (case eq of (err, q) \<Rightarrow>
        if isPresentInArray ''aspian'' (GetGroups user) then
          if name = ''hacbs'' then
            ((if aspianHACBSBindQuota q = 0 then Some NoQuotaAvailable else err),
             q\<lparr>aspianHACBSBindQuota := aspianHACBSBindQuota q - 1\<rparr>)
          else (err, q)
        else (err, q))"

definition appstudio_block :: "user_Info \<Rightarrow> string \<Rightarrow> error option \<times> BindQuota \<Rightarrow> error option \<times> BindQuota" where
  "appstudio_block user name eq =
     (case eq of (err, q) \<Rightarrow>
        if isPresentInArray ''bspian'' (GetGroups user) then
          if name = ''appstudio'' then
            ((if bspainAppStudioBindQuota q = 0 then Some NoQuotaAvailable else err),
             q\<lparr>bspainAppStudioBindQuota := bspainAppStudioBindQuota q - 1\<rparr>)
          else (err, q)
        else (err, q))"

definition Admit_objectname :: "Context \<Rightarrow> Attributes \<Rightarrow> BindQuota \<Rightarrow> result \<times> BindQuota" where
  "Admit_objectname ctx a q =
     (if GetSubresource a \<noteq> '''' then (Returns None, q)
      else case GetObject a of
        MetaObject name \<Rightarrow>
          (let err0 = (case ClusterNameFrom ctx of Inl e \<Rightarrow> Some e | Inr clusterName \<Rightarrow> None) in
           case GetUserInfo a of
             None \<Rightarrow> (Panics NilPointerDereference, q)
           | Some user \<Rightarrow>
               (case appstudio_block user name (hacbs_block user name (err0, q)) of
                  (err, q') \<Rightarrow>
                    if err \<noteq> None then (Returns err, q')
                    else if name = ''data.my.domain'' then (Returns (Some NoEntitlementPresent), q')
                    else (Returns None, q')))
      | NilObject \<Rightarrow> (Returns (Some NotMetaObject), q)
      | OtherObject \<Rightarrow> (Returns (Some NotMetaObject), q))"

subsection \<open>The version of the syncer document: checks by organization and kind\<close>

record Quota =
  aspianHACBSQuota :: go_int
  bspainAppStudioQuota :: go_int

definition init_Quota :: Quota where
  "init_Quota = \<lparr>aspianHACBSQuota = 1, bspainAppStudioQuota = 1\<rparr>"

definition Pipeline_block :: "user_Info \<Rightarrow> string \<Rightarrow> error option \<times> Quota \<Rightarrow> error option \<times> Quota" where
  "Pipeline_block user kind eq =
     (case eq of (err, q) \<Rightarrow>
        if isPresentInArray ''org/aspian'' (GetGroups user) then
          if kind = ''Pipeline'' then
            ((if aspianHACBSQuota q = 0 then Some QuotaCheckFailed else err),
             q\<lparr>aspianHACBSQuota := aspianHACBSQuota q - 1\<rparr>)
          else (err, q)
        else (err, q))"

definition App_block :: "user_Info \<Rightarrow> string \<Rightarrow> error option \<times> Quota \<Rightarrow> error option \<times> Quota" where
  "App_block user kind eq =
     (case eq of (err, q) \<Rightarrow>
        if isPresentInArray ''org/bspian'' (GetGroups user) then
          if kind = ''App'' then
            ((if bspainAppStudioQuota q = 0 then Some QuotaCheckFailed else err),
             q\<lparr>bspainAppStudioQuota := bspainAppStudioQuota q - 1\<rparr>)
          else (err, q)
        else (err, q))"

definition Admit_org :: "Attributes \<Rightarrow> Quota \<Rightarrow> result \<times> Quota" where
  "Admit_org a q =
     (if GetSubresource a \<noteq> '''' then (Returns None, q)
      else case GetObject a of
        MetaObject name \<Rightarrow>
          (case GetUserInfo a of
             None \<Rightarrow> (Panics NilPointerDereference, q)
           | Some user \<Rightarrow>
               (case App_block user (GetKind a) (Pipeline_block user (GetKind a) (None, q)) of
                  (err, q') \<Rightarrow> (Returns err, q')))
      | NilObject \<Rightarrow> (Returns (Some NotMetaObject), q)
      | OtherObject \<Rightarrow> (Returns (Some NotMetaObject), q))"

subsection \<open>Serving a sequence of requests\<close>

text \<open>
  The counters live as long as the process: each call starts from the counters the call
  before it left. \<open>serve admit rs q\<close> is the list of results of the requests \<open>rs\<close>
  served one after the other from the counters \<open>q\<close>, and the counters at the end.
\<close>

fun serve :: "('r \<Rightarrow> 'q \<Rightarrow> result \<times> 'q) \<Rightarrow> 'r list \<Rightarrow> 'q \<Rightarrow> result list \<times> 'q" where
  "serve admit [] q = ([], q)"
| "serve admit (r # rs) q =
     (case admit r q of (res, q') \<Rightarrow>
        (case serve admit rs q' of (ress, q'') \<Rightarrow> (res # ress, q'')))"

subsection \<open>The requests the quota blocks apply to\<close>

definition in_group :: "string \<Rightarrow> Attributes \<Rightarrow> bool" where
  "in_group g a =
     (case GetUserInfo a of None \<Rightarrow> False | Some user \<Rightarrow> isPresentInArray g (GetGroups user))"

definition is_MetaObject :: "runtime_Object \<Rightarrow> bool" where
  "is_MetaObject obj =
     (case obj of MetaObject name \<Rightarrow> True | NilObject \<Rightarrow> False | OtherObject \<Rightarrow> False)"

text \<open>The requests that reach the two blocks of the syncer document's version.\<close>

definition requests_Pipeline :: "Attributes \<Rightarrow> bool" where
  "requests_Pipeline a =
     (GetSubresource a = '''' \<and> is_MetaObject (GetObject a) \<and> in_group ''org/aspian'' a \<and>
      GetKind a = ''Pipeline'')"

definition requests_App :: "Attributes \<Rightarrow> bool" where
  "requests_App a =
     (GetSubresource a = '''' \<and> is_MetaObject (GetObject a) \<and> in_group ''org/bspian'' a \<and>
      GetKind a = ''App'')"

text \<open>
  The requests that reach the two blocks of the second version, which takes the request
  context as well.
\<close>

definition requests_hacbs :: "Context \<times> Attributes \<Rightarrow> bool" where
  "requests_hacbs r =
     (GetSubresource (snd r) = '''' \<and> GetObject (snd r) = MetaObject ''hacbs'' \<and>
      in_group ''aspian'' (snd r))"

definition requests_appstudio :: "Context \<times> Attributes \<Rightarrow> bool" where
  "requests_appstudio r =
     (GetSubresource (snd r) = '''' \<and> GetObject (snd r) = MetaObject ''appstudio'' \<and>
      in_group ''bspian'' (snd r))"

definition has_cluster :: "Context \<times> Attributes \<Rightarrow> bool" where
  "has_cluster r = (cluster (fst r) \<noteq> None)"

subsection \<open>Example requests\<close>

definition a_status :: Attributes where
  "a_status = \<lparr>GetSubresource = ''status'', GetObject = MetaObject ''build'',
     GetUserInfo = Some \<lparr>GetName = ''alice'', GetGroups = [''org/aspian'']\<rparr>,
     GetKind = ''Pipeline''\<rparr>"

definition a_pipeline :: Attributes where
  "a_pipeline = \<lparr>GetSubresource = '''', GetObject = MetaObject ''build'',
     GetUserInfo = Some \<lparr>GetName = ''alice'', GetGroups = [''org/aspian'']\<rparr>,
     GetKind = ''Pipeline''\<rparr>"

definition a_other :: Attributes where
  "a_other = \<lparr>GetSubresource = '''', GetObject = MetaObject ''build'',
     GetUserInfo = Some \<lparr>GetName = ''olga'', GetGroups = [''org/other'', ''org/aspian'']\<rparr>,
     GetKind = ''Pipeline''\<rparr>"

definition a_app :: Attributes where
  "a_app = \<lparr>GetSubresource = '''', GetObject = MetaObject ''shop'',
     GetUserInfo = Some \<lparr>GetName = ''bob'', GetGroups = [''org/bspian'']\<rparr>,
     GetKind = ''App''\<rparr>"

definition a_domain :: Attributes where
  "a_domain = \<lparr>GetSubresource = '''', GetObject = MetaObject ''data.my.domain'',
     GetUserInfo = Some \<lparr>GetName = ''ben'', GetGroups = []\<rparr>,
     GetKind = ''APIBinding''\<rparr>"

definition a_hacbs :: Attributes where
  "a_hacbs = \<lparr>GetSubresource = '''', GetObject = MetaObject ''hacbs'',
     GetUserInfo = Some \<lparr>GetName = ''alice'', GetGroups = [''aspian'']\<rparr>,
     GetKind = ''APIBinding''\<rparr>"

definition a_appstudio :: Attributes where
  "a_appstudio = \<lparr>GetSubresource = '''', GetObject = MetaObject ''appstudio'',
     GetUserInfo = Some \<lparr>GetName = ''bob'', GetGroups = [''bspian'']\<rparr>,
     GetKind = ''APIBinding''\<rparr>"

definition in_cluster :: Context where
  "in_cluster = \<lparr>cluster = Some ''root:aspian''\<rparr>"

definition no_cluster :: Context where
  "no_cluster = \<lparr>cluster = None\<rparr>"

text \<open>An index in which every logical cluster holds one entitlement with the given limit.\<close>

definition entitled :: "string \<Rightarrow> CustomAdmission" where
  "entitled lim =
     \<lparr>entitlementIndexer = (\<lambda>c. Inr [\<lparr>Spec = \<lparr>QuotaItems = [\<lparr>Limits = lim\<rparr>]\<rparr>\<rparr>])\<rparr>"

text \<open>An index in which every logical cluster holds one entitlement without quota items.\<close>

definition no_items :: CustomAdmission where
  "no_items = \<lparr>entitlementIndexer = (\<lambda>c. Inr [\<lparr>Spec = \<lparr>QuotaItems = []\<rparr>\<rparr>])\<rparr>"

text \<open>Counters that have run down to zero.\<close>

definition zero_Quota :: Quota where
  "zero_Quota = \<lparr>aspianHACBSQuota = 0, bspainAppStudioQuota = 0\<rparr>"

definition zero_BindQuota :: BindQuota where
  "zero_BindQuota = \<lparr>aspianHACBSBindQuota = 0, bspainAppStudioBindQuota = 0\<rparr>"

text \<open>The tenant the first version computes for a request (\<^verbatim>\<open>org := getTenantId(user)\<close>).\<close>

definition tenant :: "Attributes \<Rightarrow> string" where
  "tenant a = (case GetUserInfo a of None \<Rightarrow> '''' | Some user \<Rightarrow> getTenantId user)"

section \<open>Placement and sync of workloads\<close>

text \<open>
  The Target Registry, the Location Resolver, the Placement Engine, the label state
  machine and the Sync Agent of the specification have no code among the sources: only
  their end-to-end test, \<^verbatim>\<open>test/e2e/reconciler/scheduling/controller_test.go\<close>, is there.
  What the test fixes (label keys, the Location, the Services, the order of its steps) is
  taken from the test; the components are modelled from the specification, each
  definition saying so. Every operation is one atomic step on the state of the system;
  retries, back-off and the worker pools of section 5 of the specification are not
  modelled.
\<close>

type_synonym labels = "(string \<times> string) list"

subsection \<open>What the end-to-end test fixes\<close>

text \<open>
  The test gives each Service the label \<^verbatim>\<open>"state.workload.kcp.dev/" + syncTargetKey: "Sync"\<close>
  and lists the downstream Services by the selector
  \<^verbatim>\<open>"internal.workload.kcp.dev/cluster=" + syncTargetKey\<close>.
\<close>

definition state_label_key :: "string \<Rightarrow> string" where
  "state_label_key syncTargetKey = ''state.workload.kcp.dev/'' @ syncTargetKey"

definition cluster_label_key :: string where
  "cluster_label_key = ''internal.workload.kcp.dev/cluster''"

text \<open>The resource of the test's Location.\<close>

record GroupVersionResource =
  Group :: string
  Version :: string
  Resource :: string

definition synctargets :: GroupVersionResource where
  "synctargets = \<lparr>Group = ''workload.kcp.dev'', Version = ''v1alpha1'', Resource = ''synctargets''\<rparr>"

text \<open>
  Modelled from the spec: \<^verbatim>\<open>schedulingv1alpha1.PlacementAnnotationKey\<close>, the key of the
  namespace placement annotation of section 6, is a constant declared outside the
  sources; only its being one fixed key matters.
\<close>

definition PlacementAnnotationKey :: string where
  "PlacementAnnotationKey = ''scheduling.kcp.dev/placement''"

subsection \<open>Target Registry\<close>

text \<open>
  Modelled from the spec: the ExecutionTarget of section 3, whose declaration is not in
  the sources. Identity (name, stable UID), the labels a selector reads, the declared
  resource kinds and the readiness condition. The UID serves as the target key of the
  labels. The time of the last heartbeat is left out: no component reads it.
\<close>

record ExecutionTarget =
  t_name :: string
  t_uid :: string
  t_labels :: labels
  t_kinds :: "string list"
  t_ready :: bool

subsection \<open>Locations\<close>

text \<open>
  Modelled from the spec: the selector of a Location (section 3), a predicate on the
  labels of a target, or malformed (sections 4.2 and 7).
\<close>

datatype selector = MatchLabels labels | Malformed

text \<open>
  Modelled from the spec: the Location of section 3, with the fields the test writes
  (name, labels, resource) and reads (\<^verbatim>\<open>Status.AvailableInstances\<close>, a \<^verbatim>\<open>*uint32\<close>:
  \<open>None\<close> is the nil pointer). \<open>l_invalid\<close> is the error section 4.2 reports on the
  status of a Location with a malformed selector.
\<close>

record Location =
  l_name :: string
  l_labels :: labels
  l_resource :: GroupVersionResource
  l_selector :: selector
  AvailableInstances :: "32 word option"
  l_invalid :: bool

text \<open>
  Modelled from the spec: a label predicate, every required label is among the labels
  of the target.
\<close>

fun has_labels :: "labels \<Rightarrow> labels \<Rightarrow> bool" where
  "has_labels [] actual = True"
| "has_labels ((k, v) # required) actual = (map_of actual k = Some v \<and> has_labels required actual)"

text \<open>
  Modelled from the spec: selector evaluation (section 4.2), a pure predicate of label
  and resource kind over the facts of a target. The registered targets are the sync
  targets, so the resource filter holds of them exactly when the Location's resource is
  \<open>synctargets\<close>, as in the test; a malformed selector selects nothing.
\<close>

definition selects :: "Location \<Rightarrow> ExecutionTarget \<Rightarrow> bool" where
  "selects L t =
     (case l_selector L of
        Malformed \<Rightarrow> False
      | MatchLabels required \<Rightarrow> l_resource L = synctargets \<and> has_labels required (t_labels t))"

text \<open>Modelled from the spec: the ready, matching targets of a Location (section 3).\<close>

definition ready_matching :: "Location \<Rightarrow> ExecutionTarget list \<Rightarrow> ExecutionTarget list" where
  "ready_matching L ts = filter (\<lambda>t. t_ready t \<and> selects L t) ts"

text \<open>
  Modelled from the spec: the recomputation of section 4.2. A malformed selector is
  reported on the status and the count stays as it was.
\<close>

definition recompute :: "ExecutionTarget list \<Rightarrow> Location \<Rightarrow> Location" where
  "recompute ts L =
     (case l_selector L of
        Malformed \<Rightarrow> L\<lparr>l_invalid := True\<rparr>
      | MatchLabels required \<Rightarrow>
          L\<lparr>AvailableInstances := Some (of_nat (length (ready_matching L ts))), l_invalid := False\<rparr>)"

text \<open>
  Modelled from the spec: the change events of section 4.1 that the Location Resolver
  consumes, and the creation of a Location, which the resolver has to answer as well
  (the test waits for the count of a new Location).
\<close>

datatype resolver_event = TargetChanged ExecutionTarget | LocationCreated string

text \<open>
  Modelled from the spec: the Locations an event makes the resolver recompute, ``every
  Location whose selector could match the changed target'' (section 4.2).
\<close>

fun triggers :: "resolver_event \<Rightarrow> Location \<Rightarrow> bool" where
  "triggers (TargetChanged t) L = selects L t"
| "triggers (LocationCreated n) L = (l_name L = n)"

subsection \<open>Placements, namespaces, objects, mirrors\<close>

text \<open>Modelled from the spec: the Placement of section 3 and its phases.\<close>

datatype phase = Pending | Bound | Unbound

text \<open>
  Modelled from the spec: a Placement binds one workspace to one Location; \<open>p_target\<close>
  is the target the Placement Engine has assigned, if any.
\<close>

record Placement =
  p_workspace :: string
  p_location :: string
  p_phase :: phase
  p_target :: "string option"

text \<open>Modelled from the spec: a namespace of a workspace with its annotations (section 4.3).\<close>

record Namespace =
  ns_workspace :: string
  ns_name :: string
  ns_annotations :: labels

text \<open>
  Modelled from the spec: an upstream object, with the metadata the test writes and an
  opaque spec and status.
\<close>

record Object =
  o_workspace :: string
  o_namespace :: string
  o_kind :: string
  o_name :: string
  o_labels :: labels
  o_spec :: string
  o_status :: string

text \<open>
  Modelled from the spec: the Downstream Mirror Object of section 3 with its provenance
  (source workspace, namespace and name, owning target key).
\<close>

record Mirror =
  m_workspace :: string
  m_namespace :: string
  m_kind :: string
  m_name :: string
  m_target :: string
  m_labels :: labels
  m_spec :: string
  m_status :: string

text \<open>
  Modelled from the spec: the identity of an upstream object (workspace, namespace, kind,
  name), and the same on a mirror, its provenance.
\<close>

type_synonym ref = "string \<times> string \<times> string \<times> string"

definition ref_of :: "Object \<Rightarrow> ref" where
  "ref_of obj = (o_workspace obj, o_namespace obj, o_kind obj, o_name obj)"

definition source_of :: "Mirror \<Rightarrow> ref" where
  "source_of mir = (m_workspace mir, m_namespace mir, m_kind mir, m_name mir)"

text \<open>
  Modelled from the spec: the state of the system. The registry, the events the resolver
  has not consumed yet, the Locations, the Placements, the namespaces and objects of the
  workspaces (upstream) and the mirrors on the targets (downstream).
\<close>

record kcp =
  targets :: "ExecutionTarget list"
  pending :: "resolver_event list"
  locations :: "Location list"
  placements :: "Placement list"
  namespaces :: "Namespace list"
  upstream :: "Object list"
  downstream :: "Mirror list"

text \<open>Modelled from the spec: the system at its start, with nothing registered or created.\<close>

definition init_kcp :: kcp where
  "init_kcp = \<lparr>targets = [], pending = [], locations = [], placements = [], namespaces = [],
     upstream = [], downstream = []\<rparr>"

subsection \<open>Registry operations\<close>

text \<open>
  Modelled from the spec: \<^verbatim>\<open>Register(identity, supportedKinds)\<close> of section 4.1. A new
  target is not ready until a heartbeat says so; a UID that is registered already keeps
  its registration. Every state change publishes a change event.
\<close>

definition Register :: "string \<Rightarrow> string \<Rightarrow> labels \<Rightarrow> string list \<Rightarrow> kcp \<Rightarrow> kcp" where
  "Register nm uid ls kinds s =
     (if uid \<in> set (map t_uid (targets s)) then s
      else let t = \<lparr>t_name = nm, t_uid = uid, t_labels = ls, t_kinds = kinds, t_ready = False\<rparr>
           in s\<lparr>targets := targets s @ [t], pending := pending s @ [TargetChanged t]\<rparr>)"

text \<open>Modelled from the spec: \<^verbatim>\<open>Heartbeat(handle, readyCondition)\<close> of section 4.1.\<close>

definition Heartbeat :: "string \<Rightarrow> bool \<Rightarrow> kcp \<Rightarrow> kcp" where
  "Heartbeat uid readyCondition s =
     (let ts = map (\<lambda>t. if t_uid t = uid then t\<lparr>t_ready := readyCondition\<rparr> else t) (targets s)
      in s\<lparr>targets := ts,
            pending := pending s @ map TargetChanged (filter (\<lambda>t. t_uid t = uid) ts)\<rparr>)"

text \<open>Modelled from the spec: \<^verbatim>\<open>Deregister(handle)\<close> of section 4.1.\<close>

definition Deregister :: "string \<Rightarrow> kcp \<Rightarrow> kcp" where
  "Deregister uid s =
     s\<lparr>targets := filter (\<lambda>t. t_uid t \<noteq> uid) (targets s),
       pending := pending s @ map TargetChanged (filter (\<lambda>t. t_uid t = uid) (targets s))\<rparr>"

subsection \<open>Location Resolver\<close>

text \<open>
  Modelled from the spec: the creation of a Location. Its status is empty until the
  resolver has answered the creation.
\<close>

definition CreateLocation :: "Location \<Rightarrow> kcp \<Rightarrow> kcp" where
  "CreateLocation L s =
     (if l_name L \<in> set (map l_name (locations s)) then s
      else s\<lparr>locations := locations s @ [L\<lparr>AvailableInstances := None, l_invalid := False\<rparr>],
             pending := pending s @ [LocationCreated (l_name L)]\<rparr>)"

text \<open>
  Modelled from the spec: one reconciliation of the Location Resolver (section 4.2). It
  takes the oldest event and recomputes, from the registry as it is now, the Locations
  the event concerns.
\<close>

definition Resolve :: "kcp \<Rightarrow> kcp" where
  "Resolve s =
     (case pending s of
        [] \<Rightarrow> s
      | e # es \<Rightarrow>
          s\<lparr>pending := es,
            locations := map (\<lambda>L. if triggers e L then recompute (targets s) L else L) (locations s)\<rparr>)"

text \<open>Modelled from the spec: a number of reconciliations of the resolver, one after the other.\<close>

fun Resolve_times :: "nat \<Rightarrow> kcp \<Rightarrow> kcp" where
  "Resolve_times 0 s = s"
| "Resolve_times (Suc n) s = Resolve_times n (Resolve s)"


subsection \<open>Label state machine\<close>

text \<open>
  Modelled from the spec: the sync intent of section 3, per object and per target. No
  key means no intent.
\<close>

datatype intent = Sync | Removing

text \<open>
  Modelled from the spec: the state of one object on one target, its intent and its
  mirror on the target, if there is one.
\<close>

type_synonym 'm unit_state = "intent option \<times> 'm option"

text \<open>
  Modelled from the spec: what moves the state machine of section 4.4. The Placement
  Engine assigns the target; an unbind, the removal of the target from the matching set
  and the deletion of the upstream object withdraw the intent; the Sync Agent
  reconciles, reaching the target or not, with the function that gives the mirror to
  write from the mirror that is there.
\<close>

datatype 'm trigger =
    Assign
  | Unbind
  | TargetRemoved
  | UpstreamDeleted
  | AgentReconcile bool "'m option \<Rightarrow> 'm"

text \<open>
  Modelled from the spec: the transitions of section 4.4 and the Sync Agent's two
  reconciliations of section 4.5. \<open>absent \<rightarrow> Sync\<close> when the engine assigns the target;
  \<open>Sync \<rightarrow> Removing\<close> on unbind, on removal of the target from the matching set, and on
  deletion of the upstream object while a mirror exists. The agent, when it reaches the
  target: on \<open>Sync\<close> it creates or updates the mirror; on \<open>Removing\<close> it deletes the
  mirror, and in a later reconciliation, finding the mirror gone, clears the key. Each
  reconciliation is one write (section 5). An agent that does not reach its target
  changes nothing.
\<close>

fun fsm_step :: "'m trigger \<Rightarrow> 'm unit_state \<Rightarrow> 'm unit_state" where
  "fsm_step Assign (None, mir) = (Some Sync, mir)"
| "fsm_step Assign (Some i, mir) = (Some i, mir)"
| "fsm_step Unbind (Some Sync, mir) = (Some Removing, mir)"
| "fsm_step Unbind (i, mir) = (i, mir)"
| "fsm_step TargetRemoved (Some Sync, mir) = (Some Removing, mir)"
| "fsm_step TargetRemoved (i, mir) = (i, mir)"
| "fsm_step UpstreamDeleted (Some Sync, Some x) = (Some Removing, Some x)"
| "fsm_step UpstreamDeleted (i, mir) = (i, mir)"
| "fsm_step (AgentReconcile reachable apply) (Some Sync, mir) =
     (if reachable then (Some Sync, Some (apply mir)) else (Some Sync, mir))"
| "fsm_step (AgentReconcile reachable apply) (Some Removing, Some x) =
     (if reachable then (Some Removing, None) else (Some Removing, Some x))"
| "fsm_step (AgentReconcile reachable apply) (Some Removing, None) =
     (if reachable then (None, None) else (Some Removing, None))"
| "fsm_step (AgentReconcile reachable apply) (None, mir) = (None, mir)"

text \<open>
  Modelled from the spec: an execution of one object on one target, the list of the
  states it goes through under a list of triggers.
\<close>

fun fsm_trace :: "'m trigger list \<Rightarrow> 'm unit_state \<Rightarrow> 'm unit_state list" where
  "fsm_trace [] u = [u]"
| "fsm_trace (e # es) u = u # fsm_trace es (fsm_step e u)"

text \<open>
  Modelled from the spec: the intent as a label. The value \<^verbatim>\<open>Sync\<close> is the test's;
  \<^verbatim>\<open>Removing\<close> is the other value section 3 allows; any other value is no intent.
\<close>

definition intent_value :: "intent \<Rightarrow> string" where
  "intent_value i = (case i of Sync \<Rightarrow> ''Sync'' | Removing \<Rightarrow> ''Removing'')"

text \<open>Modelled from the spec: the intent a label value stands for.\<close>

definition read_intent :: "string option \<Rightarrow> intent option" where
  "read_intent v =
     (case v of
        None \<Rightarrow> None
      | Some x \<Rightarrow> if x = ''Sync'' then Some Sync else if x = ''Removing'' then Some Removing else None)"

text \<open>Modelled from the spec: the intent of an object for the target \<open>k\<close>, read from its labels.\<close>

definition intent_of :: "string \<Rightarrow> labels \<Rightarrow> intent option" where
  "intent_of k ls = read_intent (map_of ls (state_label_key k))"

text \<open>
  Modelled from the spec: the labels with the intent for the target \<open>k\<close> set, or with
  the key removed.
\<close>

definition write_intent :: "string \<Rightarrow> intent option \<Rightarrow> labels \<Rightarrow> labels" where
  "write_intent k i ls =
     (case i of
        None \<Rightarrow> AList.delete (state_label_key k) ls
      | Some x \<Rightarrow> AList.update (state_label_key k) (intent_value x) ls)"

subsection \<open>Placement Engine\<close>

text \<open>Modelled from the spec: the keys of the form \<^verbatim>\<open>state.workload.kcp.dev/<target-key>\<close>.\<close>

definition is_state_key :: "string \<Rightarrow> bool" where
  "is_state_key key = HasPrefix key ''state.workload.kcp.dev/''"

text \<open>Modelled from the spec: \<open>Sync \<rightarrow> Removing\<close> on one label (section 4.4).\<close>

definition retire :: "string \<times> string \<Rightarrow> string \<times> string" where
  "retire kv =
     (if is_state_key (fst kv) \<and> snd kv = ''Sync'' then (fst kv, ''Removing'') else kv)"

text \<open>Modelled from the spec: the labels of an object whose workspace has no target any more.\<close>

definition retire_all :: "labels \<Rightarrow> labels" where
  "retire_all ls = map retire ls"

text \<open>
  Modelled from the spec: the labels of an object after the engine has assigned the
  target \<open>k\<close> (section 4.3): the intents for other targets go from \<open>Sync\<close> to
  \<open>Removing\<close>, and the object gets the intent \<open>Sync\<close> for \<open>k\<close> when it has no intent
  for \<open>k\<close> (\<open>absent \<rightarrow> Sync\<close>).
\<close>

definition assign_intent :: "string \<Rightarrow> labels \<Rightarrow> labels" where
  "assign_intent k ls =
     (let others = map (\<lambda>kv. if fst kv = state_label_key k then kv else retire kv) ls
      in case map_of others (state_label_key k) of
           None \<Rightarrow> AList.update (state_label_key k) ''Sync'' others
         | Some v \<Rightarrow> others)"

text \<open>Modelled from the spec: the tie-break of section 4.3, the lexicographically smallest UID.\<close>

fun smallest :: "string list \<Rightarrow> string option" where
  "smallest [] = None"
| "smallest (x # xs) =
     (case smallest xs of None \<Rightarrow> Some x | Some y \<Rightarrow> Some (if x \<le> y then x else y))"

text \<open>Modelled from the spec: the Location a Placement refers to by name.\<close>

fun find_location :: "string \<Rightarrow> Location list \<Rightarrow> Location option" where
  "find_location n [] = None"
| "find_location n (L # Ls) = (if l_name L = n then Some L else find_location n Ls)"

text \<open>Modelled from the spec: the current matching ready target set of a Location (section 4.3).\<close>

definition eligible :: "kcp \<Rightarrow> string \<Rightarrow> string list" where
  "eligible s n =
     (case find_location n (locations s) of
        None \<Rightarrow> []
      | Some L \<Rightarrow> map t_uid (ready_matching L (targets s)))"

text \<open>
  Modelled from the spec: the assignment of section 4.3. The target assigned before
  stays when it still lies in the matching set; otherwise the smallest UID is selected.
\<close>

definition choose_target :: "string option \<Rightarrow> string list \<Rightarrow> string option" where
  "choose_target previous uids =
     (case previous of
        None \<Rightarrow> smallest uids
      | Some k \<Rightarrow> if k \<in> set uids then Some k else smallest uids)"

text \<open>Modelled from the spec: the resource kinds the target with the UID \<open>k\<close> has declared.\<close>

fun kinds_of :: "string \<Rightarrow> ExecutionTarget list \<Rightarrow> string list" where
  "kinds_of k [] = []"
| "kinds_of k (t # ts) = (if t_uid t = k then t_kinds t else kinds_of k ts)"

text \<open>Modelled from the spec: a resource of a syncable kind, one the assigned target supports.\<close>

definition syncable :: "kcp \<Rightarrow> string \<Rightarrow> Object \<Rightarrow> bool" where
  "syncable s k obj = (o_kind obj \<in> set (kinds_of k (targets s)))"

text \<open>
  Modelled from the spec: the reconciliation of a Placement (section 4.3). Without an
  eligible target the Placement is \<open>Pending\<close>, or \<open>Unbound\<close> when it was bound, and the
  intents of the workspace's objects go to \<open>Removing\<close>. With one it is \<open>Bound\<close>, the
  namespaces of the workspace get the placement annotation with the workspace and target
  pair, and the syncable objects get the intent for the target.
\<close>

definition reconcile_placement :: "Placement \<Rightarrow> kcp \<Rightarrow> kcp" where
  "reconcile_placement p s =
     (case choose_target (p_target p) (eligible s (p_location p)) of
        None \<Rightarrow>
          s\<lparr>placements :=
              map (\<lambda>x. if p_workspace x = p_workspace p
                        then x\<lparr>p_phase := (if p_phase x = Pending then Pending else Unbound),
                               p_target := None\<rparr>
                        else x) (placements s),
            upstream :=
              map (\<lambda>obj. if o_workspace obj = p_workspace p
                          then obj\<lparr>o_labels := retire_all (o_labels obj)\<rparr> else obj) (upstream s)\<rparr>
      | Some k \<Rightarrow>
          s\<lparr>placements :=
              map (\<lambda>x. if p_workspace x = p_workspace p
                        then x\<lparr>p_phase := Bound, p_target := Some k\<rparr> else x) (placements s),
            namespaces :=
              map (\<lambda>ns. if ns_workspace ns = p_workspace p
                         then ns\<lparr>ns_annotations :=
                                  AList.update PlacementAnnotationKey (p_workspace p @ ''/'' @ k)
                                    (ns_annotations ns)\<rparr>
                         else ns) (namespaces s),
            upstream :=
              map (\<lambda>obj. if o_workspace obj = p_workspace p \<and> syncable s k obj
                          then obj\<lparr>o_labels := assign_intent k (o_labels obj)\<rparr> else obj)
                (upstream s)\<rparr>)"

text \<open>Modelled from the spec: the Placement of a workspace.\<close>

fun find_placement :: "string \<Rightarrow> Placement list \<Rightarrow> Placement option" where
  "find_placement ws [] = None"
| "find_placement ws (p # ps) = (if p_workspace p = ws then Some p else find_placement ws ps)"

text \<open>Modelled from the spec: one reconciliation of the Placement Engine for a workspace.\<close>

definition Reconcile :: "string \<Rightarrow> kcp \<Rightarrow> kcp" where
  "Reconcile ws s =
     (case find_placement ws (placements s) of None \<Rightarrow> s | Some p \<Rightarrow> reconcile_placement p s)"

text \<open>
  Modelled from the spec: \<^verbatim>\<open>Bind(workspace, locationRef)\<close> of section 4.3. A workspace has
  one Placement at a time: a new one supersedes the old one.
\<close>

definition Bind :: "string \<Rightarrow> string \<Rightarrow> kcp \<Rightarrow> kcp" where
  "Bind ws locationRef s =
     Reconcile ws
       (s\<lparr>placements := filter (\<lambda>p. p_workspace p \<noteq> ws) (placements s) @
            [\<lparr>p_workspace = ws, p_location = locationRef, p_phase = Pending, p_target = None\<rparr>]\<rparr>)"

text \<open>
  Modelled from the spec: the owner deletes the Placement of a workspace (section 3);
  the unbind moves the intents of its objects from \<open>Sync\<close> to \<open>Removing\<close> (section 4.4).
\<close>

definition Unbind_workspace :: "string \<Rightarrow> kcp \<Rightarrow> kcp" where
  "Unbind_workspace ws s =
     s\<lparr>placements := filter (\<lambda>p. p_workspace p \<noteq> ws) (placements s),
       upstream :=
         map (\<lambda>obj. if o_workspace obj = ws then obj\<lparr>o_labels := retire_all (o_labels obj)\<rparr> else obj)
           (upstream s)\<rparr>"

subsection \<open>Upstream clients\<close>

text \<open>Modelled from the spec: a namespace comes to exist in a workspace.\<close>

definition CreateNamespace :: "string \<Rightarrow> string \<Rightarrow> kcp \<Rightarrow> kcp" where
  "CreateNamespace ws n s =
     (if (ws, n) \<in> set (map (\<lambda>ns. (ns_workspace ns, ns_name ns)) (namespaces s)) then s
      else s\<lparr>namespaces := namespaces s @
               [\<lparr>ns_workspace = ws, ns_name = n, ns_annotations = []\<rparr>]\<rparr>)"

text \<open>
  Modelled from the spec: a client creates an object, with the labels it gives it, in a
  namespace that exists; a second object of the same workspace, namespace, kind and name
  is refused.
\<close>

definition Create :: "Object \<Rightarrow> kcp \<Rightarrow> kcp" where
  "Create obj s =
     (if (o_workspace obj, o_namespace obj) \<in>
           set (map (\<lambda>ns. (ns_workspace ns, ns_name ns)) (namespaces s)) \<and>
         ref_of obj \<notin> set (map ref_of (upstream s))
      then s\<lparr>upstream := upstream s @ [obj]\<rparr>
      else s)"

subsection \<open>Sync Agent\<close>

text \<open>Modelled from the spec: the upstream object with a given identity.\<close>

fun find_object :: "ref \<Rightarrow> Object list \<Rightarrow> Object option" where
  "find_object r [] = None"
| "find_object r (obj # objs) = (if ref_of obj = r then Some obj else find_object r objs)"

text \<open>Modelled from the spec: the mirror of an object on the target \<open>k\<close>.\<close>

fun find_mirror :: "string \<Rightarrow> ref \<Rightarrow> Mirror list \<Rightarrow> Mirror option" where
  "find_mirror k r [] = None"
| "find_mirror k r (mir # mirs) =
     (if m_target mir = k \<and> source_of mir = r then Some mir else find_mirror k r mirs)"

text \<open>
  Modelled from the spec: the mirror the agent of target \<open>k\<close> writes for an object
  (sections 3 and 4.5): a copy of the object under its own name, tagged with its
  provenance and with the label \<^verbatim>\<open>internal.workload.kcp.dev/cluster\<close> of the target. The
  status stays the one observed downstream.
\<close>

definition mirror_of :: "string \<Rightarrow> Object \<Rightarrow> Mirror option \<Rightarrow> Mirror" where
  "mirror_of k obj existing =
     \<lparr>m_workspace = o_workspace obj, m_namespace = o_namespace obj, m_kind = o_kind obj,
      m_name = o_name obj, m_target = k,
      m_labels = AList.update cluster_label_key k (o_labels obj),
      m_spec = o_spec obj,
      m_status = (case existing of None \<Rightarrow> '''' | Some mir \<Rightarrow> m_status mir)\<rparr>"

text \<open>Modelled from the spec: the write to the target, one mirror per object and target.\<close>

definition put_mirror :: "string \<Rightarrow> ref \<Rightarrow> Mirror option \<Rightarrow> Mirror list \<Rightarrow> Mirror list" where
  "put_mirror k r new mirs =
     (case new of
        None \<Rightarrow> filter (\<lambda>mir. \<not> (m_target mir = k \<and> source_of mir = r)) mirs
      | Some mir \<Rightarrow>
          (case find_mirror k r mirs of
             None \<Rightarrow> mirs @ [mir]
           | Some old \<Rightarrow> map (\<lambda>x. if m_target x = k \<and> source_of x = r then mir else x) mirs))"

text \<open>
  Modelled from the spec: the upstream-to-downstream reconciliation of the agent of
  target \<open>k\<close> for one object (section 4.5): the step of the state machine on the
  object's intent label for \<open>k\<close> and its mirror on \<open>k\<close>, written back.
\<close>

definition SyncDown :: "string \<Rightarrow> ref \<Rightarrow> bool \<Rightarrow> kcp \<Rightarrow> kcp" where
  "SyncDown k r reachable s =
     (case find_object r (upstream s) of
        None \<Rightarrow> s
      | Some obj \<Rightarrow>
          (let u = (intent_of k (o_labels obj), find_mirror k r (downstream s));
               u' = fsm_step (AgentReconcile reachable (mirror_of k obj)) u
           in s\<lparr>upstream :=
                  (if fst u' = fst u then upstream s
                   else map (\<lambda>x. if ref_of x = r
                                  then x\<lparr>o_labels := write_intent k (fst u') (o_labels x)\<rparr> else x)
                          (upstream s)),
                downstream :=
                  (if snd u' = snd u then downstream s else put_mirror k r (snd u') (downstream s))\<rparr>))"

text \<open>Modelled from the spec: the target reports a status on a mirror (sections 3 and 4.5).\<close>

definition Observe :: "string \<Rightarrow> ref \<Rightarrow> string \<Rightarrow> kcp \<Rightarrow> kcp" where
  "Observe k r status s =
     s\<lparr>downstream :=
         map (\<lambda>mir. if m_target mir = k \<and> source_of mir = r then mir\<lparr>m_status := status\<rparr> else mir)
           (downstream s)\<rparr>"

text \<open>
  Modelled from the spec: the downstream-to-upstream reconciliation (section 4.5), the
  observed status copied onto the upstream object, whose spec is not touched.
\<close>

definition SyncUp :: "string \<Rightarrow> ref \<Rightarrow> kcp \<Rightarrow> kcp" where
  "SyncUp k r s =
     (case find_mirror k r (downstream s) of
        None \<Rightarrow> s
      | Some mir \<Rightarrow>
          s\<lparr>upstream :=
              map (\<lambda>obj. if ref_of obj = r then obj\<lparr>o_status := m_status mir\<rparr> else obj)
                (upstream s)\<rparr>)"

subsection \<open>Executions\<close>

text \<open>
  Modelled from the spec: the steps of the system, and an execution as a list of steps
  from a state.
\<close>

datatype operation =
    OpRegister string string labels "string list"
  | OpHeartbeat string bool
  | OpDeregister string
  | OpCreateLocation Location
  | OpResolve
  | OpBind string string
  | OpUnbind string
  | OpReconcile string
  | OpCreateNamespace string string
  | OpCreate Object
  | OpSyncDown string ref bool
  | OpObserve string ref string
  | OpSyncUp string ref

text \<open>Modelled from the spec: one step of the system.\<close>

fun step :: "operation \<Rightarrow> kcp \<Rightarrow> kcp" where
  "step (OpRegister nm uid ls kinds) s = Register nm uid ls kinds s"
| "step (OpHeartbeat uid r) s = Heartbeat uid r s"
| "step (OpDeregister uid) s = Deregister uid s"
| "step (OpCreateLocation L) s = CreateLocation L s"
| "step OpResolve s = Resolve s"
| "step (OpBind ws n) s = Bind ws n s"
| "step (OpUnbind ws) s = Unbind_workspace ws s"
| "step (OpReconcile ws) s = Reconcile ws s"
| "step (OpCreateNamespace ws n) s = CreateNamespace ws n s"
| "step (OpCreate obj) s = Create obj s"
| "step (OpSyncDown k r reachable) s = SyncDown k r reachable s"
| "step (OpObserve k r status) s = Observe k r status s"
| "step (OpSyncUp k r) s = SyncUp k r s"

text \<open>Modelled from the spec: an execution, step after step.\<close>

fun run :: "operation list \<Rightarrow> kcp \<Rightarrow> kcp" where
  "run [] s = s"
| "run (x # xs) s = run xs (step x s)"

subsection \<open>The end-to-end test\<close>

text \<open>
  The Location the test creates: name \<^verbatim>\<open>us-east1\<close>, label \<^verbatim>\<open>foo: 42\<close>, resource
  \<^verbatim>\<open>synctargets\<close>, no instance selector (it selects every sync target).
\<close>

definition us_east1 :: Location where
  "us_east1 = \<lparr>l_name = ''us-east1'', l_labels = [(''foo'', ''42'')], l_resource = synctargets,
     l_selector = MatchLabels [], AvailableInstances = None, l_invalid = False\<rparr>"

text \<open>The Services the test creates: one port, 80 over TCP.\<close>

definition Service :: "string \<Rightarrow> string \<Rightarrow> string \<Rightarrow> labels \<Rightarrow> Object" where
  "Service ws ns nm ls =
     \<lparr>o_workspace = ws, o_namespace = ns, o_kind = ''services'', o_name = nm, o_labels = ls,
      o_spec = ''port 80/TCP'', o_status = ''''\<rparr>"

text \<open>The test's downstream list call with the label selector \<^verbatim>\<open>key=v\<close>.\<close>

definition list_by_label :: "string \<Rightarrow> string \<Rightarrow> Mirror list \<Rightarrow> Mirror list" where
  "list_by_label key v mirs = filter (\<lambda>mir. map_of (m_labels mir) key = Some v) mirs"

text \<open>
  Modelled from the spec: the start of the test as steps of the system. The syncer
  registers its sync target and reports it ready, the test creates the Location and waits
  for the resolver, which has three events to consume.
\<close>

definition register_and_locate :: "string \<Rightarrow> string \<Rightarrow> labels \<Rightarrow> string list \<Rightarrow> Location \<Rightarrow> operation list" where
  "register_and_locate nm k ls kinds L =
     [OpRegister nm k ls kinds, OpHeartbeat k True, OpCreateLocation L,
      OpResolve, OpResolve, OpResolve]"

text \<open>
  Modelled from the spec: the test with one workspace, as steps of the system. The
  workspace is bound to the Location, a Service is created in it, the Placement Engine
  and the Sync Agent of the target reconcile.
\<close>

definition one_workspace ::
  "string \<Rightarrow> string \<Rightarrow> labels \<Rightarrow> string list \<Rightarrow> Location \<Rightarrow> string \<Rightarrow> string \<Rightarrow> string \<Rightarrow> labels \<Rightarrow>
   operation list" where
  "one_workspace nm k ls kinds L ws ns service_name service_labels =
     OpCreateNamespace ws ns # register_and_locate nm k ls kinds L @
     [OpBind ws (l_name L),
      OpCreate (Service ws ns service_name service_labels),
      OpReconcile ws,
      OpSyncDown k (ref_of (Service ws ns service_name service_labels)) True]"

text \<open>
  Modelled from the spec: the test with its two workspaces, as steps of the system in
  the order of the test. Both workspaces are bound to the Location, the Service
  \<^verbatim>\<open>first\<close> is created in the one and \<^verbatim>\<open>second\<close> in the other, the Placement Engine and
  the Sync Agent of the target reconcile.
\<close>

definition two_workspaces ::
  "string \<Rightarrow> string \<Rightarrow> labels \<Rightarrow> string list \<Rightarrow> Location \<Rightarrow> string \<Rightarrow> string \<Rightarrow> labels \<Rightarrow>
   string \<Rightarrow> string \<Rightarrow> labels \<Rightarrow> operation list" where
  "two_workspaces nm k ls kinds L ws1 ns1 labels1 ws2 ns2 labels2 =
     OpCreateNamespace ws1 ns1 # OpCreateNamespace ws2 ns2 # register_and_locate nm k ls kinds L @
     [OpBind ws1 (l_name L),
      OpBind ws2 (l_name L),
      OpCreate (Service ws1 ns1 ''first'' labels1),
      OpCreate (Service ws2 ns2 ''second'' labels2),
      OpReconcile ws1,
      OpReconcile ws2,
      OpSyncDown k (ref_of (Service ws1 ns1 ''first'' labels1)) True,
      OpSyncDown k (ref_of (Service ws2 ns2 ''second'' labels2)) True]"

text \<open>
  \<^verbatim>\<open>TestScheduling\<close>: a sync target that syncs \<^verbatim>\<open>services\<close>, the Location \<^verbatim>\<open>us-east1\<close>, two
  user workspaces with their \<^verbatim>\<open>default\<close> namespaces, and the two Services with the label
  the test gives them.
\<close>

definition TestScheduling :: "string \<Rightarrow> string \<Rightarrow> string \<Rightarrow> string \<Rightarrow> operation list" where
  "TestScheduling syncTargetName syncTargetKey userCluster secondUserCluster =
     two_workspaces syncTargetName syncTargetKey [] [''services''] us_east1
       userCluster ''default'' [(state_label_key syncTargetKey, ''Sync'')]
       secondUserCluster ''default'' [(state_label_key syncTargetKey, ''Sync'')]"


subsection \<open>Notions the properties are stated with\<close>

text \<open>The selector of the Location parses.\<close>

definition wellformed :: "Location \<Rightarrow> bool" where
  "wellformed L = (case l_selector L of MatchLabels required \<Rightarrow> True | Malformed \<Rightarrow> False)"






text \<open>Every mirror carries the label of the target that owns it.\<close>

definition provenance_labelled :: "Mirror list \<Rightarrow> bool" where
  "provenance_labelled mirs =
     (\<forall>mir \<in> set mirs. map_of (m_labels mir) ''internal.workload.kcp.dev/cluster'' = Some (m_target mir))"

section \<open>Properties of the admission plugin\<close>

lemmas Atoi_defs = Atoi_def ParseUint_def isDigit_def maxUint64_def

lemmas block_defs = aspian_block_def bspian_block_def hacbs_block_def appstudio_block_def
  Pipeline_block_def App_block_def

lemmas Admit_defs = Admit_entitlement_def Admit_objectname_def Admit_org_def block_defs
  getTenantId_def HasPrefix_def index0_def ClusterNameFrom_def admitted_def word_sless_alt

lemmas request_defs = requests_Pipeline_def requests_App_def requests_hacbs_def
  requests_appstudio_def in_group_def is_MetaObject_def has_cluster_def

subsection \<open>One call\<close>

lemma org_Pipeline_dec:
  "requests_Pipeline a \<Longrightarrow> aspianHACBSQuota (snd (Admit_org a q)) = aspianHACBSQuota q - 1"
  by (auto simp: request_defs Admit_org_def block_defs split: option.splits runtime_Object.splits)

lemma org_Pipeline_keep:
  "\<not> requests_Pipeline a \<Longrightarrow> aspianHACBSQuota (snd (Admit_org a q)) = aspianHACBSQuota q"
  by (auto simp: request_defs Admit_org_def block_defs split: option.splits runtime_Object.splits)

lemma org_Pipeline_iff:
  "requests_Pipeline a \<Longrightarrow> admitted (fst (Admit_org a q)) \<longleftrightarrow> aspianHACBSQuota q \<noteq> 0"
  by (auto simp: request_defs Admit_org_def block_defs admitted_def
      split: option.splits runtime_Object.splits)

lemma org_App_dec:
  "requests_App a \<Longrightarrow> bspainAppStudioQuota (snd (Admit_org a q)) = bspainAppStudioQuota q - 1"
  by (auto simp: request_defs Admit_org_def block_defs split: option.splits runtime_Object.splits)

lemma org_App_keep:
  "\<not> requests_App a \<Longrightarrow> bspainAppStudioQuota (snd (Admit_org a q)) = bspainAppStudioQuota q"
  by (auto simp: request_defs Admit_org_def block_defs split: option.splits runtime_Object.splits)

lemma org_App_iff:
  "requests_App a \<Longrightarrow> admitted (fst (Admit_org a q)) \<longleftrightarrow> bspainAppStudioQuota q \<noteq> 0"
  by (auto simp: request_defs Admit_org_def block_defs admitted_def
      split: option.splits runtime_Object.splits)

lemma objectname_hacbs_dec:
  "requests_hacbs r \<Longrightarrow>
   aspianHACBSBindQuota (snd (case_prod Admit_objectname r q)) = aspianHACBSBindQuota q - 1"
  by (cases r) (auto simp: request_defs Admit_objectname_def Let_def block_defs
      split: option.splits runtime_Object.splits sum.splits)

lemma objectname_hacbs_keep:
  "\<not> requests_hacbs r \<Longrightarrow>
   aspianHACBSBindQuota (snd (case_prod Admit_objectname r q)) = aspianHACBSBindQuota q"
  by (cases r) (auto simp: request_defs Admit_objectname_def Let_def block_defs
      split: option.splits runtime_Object.splits sum.splits)

lemma objectname_hacbs_iff:
  "requests_hacbs r \<Longrightarrow> has_cluster r \<Longrightarrow>
   admitted (fst (case_prod Admit_objectname r q)) \<longleftrightarrow> aspianHACBSBindQuota q \<noteq> 0"
  by (cases r) (auto simp: request_defs Admit_objectname_def Let_def block_defs admitted_def
      ClusterNameFrom_def split: option.splits runtime_Object.splits sum.splits)

lemma objectname_appstudio_dec:
  "requests_appstudio r \<Longrightarrow>
   bspainAppStudioBindQuota (snd (case_prod Admit_objectname r q)) = bspainAppStudioBindQuota q - 1"
  by (cases r) (auto simp: request_defs Admit_objectname_def Let_def block_defs
      split: option.splits runtime_Object.splits sum.splits)

lemma objectname_appstudio_keep:
  "\<not> requests_appstudio r \<Longrightarrow>
   bspainAppStudioBindQuota (snd (case_prod Admit_objectname r q)) = bspainAppStudioBindQuota q"
  by (cases r) (auto simp: request_defs Admit_objectname_def Let_def block_defs
      split: option.splits runtime_Object.splits sum.splits)

lemma objectname_appstudio_iff:
  "requests_appstudio r \<Longrightarrow> has_cluster r \<Longrightarrow>
   admitted (fst (case_prod Admit_objectname r q)) \<longleftrightarrow> bspainAppStudioBindQuota q \<noteq> 0"
  by (cases r) (auto simp: request_defs Admit_objectname_def Let_def block_defs admitted_def
      ClusterNameFrom_def split: option.splits runtime_Object.splits sum.splits)

subsection \<open>A counter that every matching request decrements\<close>

lemma serve_length: "length (fst (serve admit rs q)) = length rs"
proof (induction rs arbitrary: q)
  case Nil
  then show ?case by simp
next
  case (Cons r rs)
  obtain res q' where a: "admit r q = (res, q')" by (cases "admit r q")
  obtain ress q'' where s: "serve admit rs q' = (ress, q'')" by (cases "serve admit rs q'")
  show ?case using Cons[of q'] a s by simp
qed

lemma unat_neg_pred:
  fixes c :: go_int
  assumes "1 \<le> unat (- c)" "unat (- c) + 1 < 2 ^ 64"
  shows "unat (- (c - 1)) = unat (- c) + 1"
proof -
  have "unat (- c) + unat (1 :: go_int) < 2 ^ LENGTH(64)"
    using assms by simp
  then have "unat (- c + 1) = unat (- c) + unat (1 :: go_int)"
    by (simp only: unat_add_lem)
  moreover have "- (c - 1) = - c + 1"
    by simp
  ultimately show ?thesis
    by (simp only: unat_1)
qed

text \<open>
  While the counter is \<open>- k\<close> with \<open>0 < k\<close> and fewer than \<open>2 ^ 64 - k\<close> decrements
  come before a request, the counter is not zero when the request is served, and a
  request whose only ground for denial is a zero counter is admitted.
\<close>

lemma serve_counts_down:
  fixes counter :: "'q \<Rightarrow> go_int"
  assumes dec: "\<And>r q. dec r \<Longrightarrow> counter (snd (admit r q)) = counter q - 1"
      and keep: "\<And>r q. \<not> dec r \<Longrightarrow> counter (snd (admit r q)) = counter q"
      and ok: "\<And>r q. ok r \<Longrightarrow> counter q \<noteq> 0 \<Longrightarrow> admitted (fst (admit r q))"
  shows "1 \<le> unat (- counter q) \<Longrightarrow>
         unat (- counter q) + length (filter dec (take i rs)) < 2 ^ 64 \<Longrightarrow>
         i < length rs \<Longrightarrow> ok (rs ! i) \<Longrightarrow> admitted (fst (serve admit rs q) ! i)"
proof (induction rs arbitrary: q i)
  case Nil
  then show ?case by simp
next
  case (Cons r rs)
  obtain res q' where a: "admit r q = (res, q')" by (cases "admit r q")
  obtain ress q'' where s: "serve admit rs q' = (ress, q'')" by (cases "serve admit rs q'")
  have nz: "counter q \<noteq> 0" using Cons.prems(1) by auto
  show ?case
  proof (cases i)
    case 0
    then show ?thesis using Cons.prems ok[of r q] nz a s by simp
  next
    case (Suc j)
    have q': "1 \<le> unat (- counter q') \<and>
        unat (- counter q') + length (filter dec (take j rs)) < 2 ^ 64"
    proof (cases "dec r")
      case True
      then have "counter q' = counter q - 1" using dec[of r q] a by simp
      moreover have "unat (- counter q) + 1 < 2 ^ 64" using Cons.prems(2) True Suc by simp
      ultimately show ?thesis using unat_neg_pred[of "counter q"] Cons.prems True Suc by simp
    next
      case False
      then have "counter q' = counter q" using keep[of r q] a by simp
      then show ?thesis using Cons.prems False Suc by simp
    qed
    have "admitted (fst (serve admit rs q') ! j)"
      using Cons.IH[of q' j] q' Cons.prems Suc by simp
    then show ?thesis using a s Suc by simp
  qed
qed

lemma after_denial:
  fixes counter :: "'q \<Rightarrow> go_int"
  assumes dec: "\<And>r q. dec r \<Longrightarrow> counter (snd (admit r q)) = counter q - 1"
      and keep: "\<And>r q. \<not> dec r \<Longrightarrow> counter (snd (admit r q)) = counter q"
      and ok: "\<And>r q. ok r \<Longrightarrow> counter q \<noteq> 0 \<Longrightarrow> admitted (fst (admit r q))"
      and "dec r" "counter q = 0" "i < length rs" "ok (rs ! i)"
        "length (filter dec (take i rs)) < 2 ^ 64 - 1"
  shows "admitted (fst (serve admit rs (snd (admit r q))) ! i)"
proof -
  have c: "counter (snd (admit r q)) = - 1"
    using dec[of r q] assms(4,5) by simp
  have "unat (- counter (snd (admit r q))) = 1"
    unfolding c by simp
  then show ?thesis
    using serve_counts_down[of dec counter admit ok "snd (admit r q)" i rs, OF dec keep ok] assms(6-8)
    by simp
qed

lemma objectname_hacbs_no_cluster:
  "requests_hacbs r \<Longrightarrow> \<not> has_cluster r \<Longrightarrow> \<not> admitted (fst (case_prod Admit_objectname r q))"
  by (cases r) (auto simp: request_defs Admit_objectname_def Let_def block_defs admitted_def
      ClusterNameFrom_def split: option.splits runtime_Object.splits sum.splits)

lemma objectname_appstudio_no_cluster:
  "requests_appstudio r \<Longrightarrow> \<not> has_cluster r \<Longrightarrow> \<not> admitted (fst (case_prod Admit_objectname r q))"
  by (cases r) (auto simp: request_defs Admit_objectname_def Let_def block_defs admitted_def
      ClusterNameFrom_def split: option.splits runtime_Object.splits sum.splits)

lemma serve_replicate:
  fixes counter :: "'q \<Rightarrow> go_int"
  assumes dec: "\<And>q. counter (snd (admit r q)) = counter q - 1"
  shows "counter (snd (serve admit (replicate n r) q)) = counter q - of_nat n"
proof (induction n arbitrary: q)
  case 0
  then show ?case by simp
next
  case (Suc n)
  obtain res q' where a: "admit r q = (res, q')" by (cases "admit r q")
  obtain ress q'' where s: "serve admit (replicate n r) q' = (ress, q'')"
    by (cases "serve admit (replicate n r) q'")
  have "counter q' = counter q - 1" using dec[of q] a by simp
  then show ?case using Suc[of q'] a s by simp
qed

lemma sint_zero_pred: "(c :: go_int) = 0 \<Longrightarrow> sint (c - 1) = - 1"
  by simp

lemma of_nat_max_go_int: "(of_nat (2 ^ 64 - 1) :: go_int) = - 1"
  by simp

subsection \<open>The entitlement loop on an entitlement without quota items\<close>

lemma loop_first_no_items:
  assumes "(isPresentInArray ''org/aspian'' (GetGroups user) \<and> kind = ''Pipeline'') \<or>
           (isPresentInArray ''org/bspian'' (GetGroups user) \<and> kind = ''App'')"
      and "QuotaItems (Spec entitlement) = []"
  shows "entitlements_loop user kind (entitlement # rest) q = (Panics IndexOutOfRange, q)"
  using assms by (auto simp: block_defs index0_def)

lemma loop_some_no_items:
  assumes "(isPresentInArray ''org/aspian'' (GetGroups user) \<and> kind = ''Pipeline'') \<or>
           (isPresentInArray ''org/bspian'' (GetGroups user) \<and> kind = ''App'')"
      and "entitlement \<in> set entitlements" "QuotaItems (Spec entitlement) = []"
  shows "\<not> admitted (fst (entitlements_loop user kind entitlements q))"
  using assms
proof (induction entitlements arbitrary: q)
  case Nil
  then show ?case by simp
next
  case (Cons e es)
  then show ?case
    by (auto simp: block_defs index0_def admitted_def Let_def split: list.splits)
qed

section \<open>The claims about the admission plugin\<close>

text \<open>
  C1. The quota counters are variables of the process that \<open>Admit\<close> reads and writes,
  so the result of a call is not a function of its attributes. In the syncer document's
  version (counter \<^verbatim>\<open>aspianHACBSQuota\<close>) and in the entitlement version (counter
  \<^verbatim>\<open>aspianHACBSUsedQuota\<close>) there is a request that is admitted by a fresh process and
  denied when the same process has served the same request once before. The counters
  are not kept per tenant: in the entitlement version a request of one tenant is denied
  or admitted depending on whether a request of another tenant was served before it.
\<close>

theorem Admit_depends_on_calls_served:
  "(\<exists>a. fst (Admit_org a init_Quota) \<noteq> fst (Admit_org a (snd (Admit_org a init_Quota)))) \<and>
   (\<exists>m a. fst (Admit_entitlement m a init_UsedQuota) \<noteq>
           fst (Admit_entitlement m a (snd (Admit_entitlement m a init_UsedQuota)))) \<and>
   (\<exists>m a b. tenant a \<noteq> tenant b \<and>
           fst (Admit_entitlement m b init_UsedQuota) \<noteq>
           fst (Admit_entitlement m b (snd (Admit_entitlement m a init_UsedQuota))))"
proof (intro conjI)
  have o1: "Admit_org a_pipeline init_Quota =
      (Returns None, \<lparr>aspianHACBSQuota = 0, bspainAppStudioQuota = 1\<rparr>)"
    by (simp add: Admit_defs a_pipeline_def init_Quota_def)
  have o2: "fst (Admit_org a_pipeline \<lparr>aspianHACBSQuota = 0, bspainAppStudioQuota = 1\<rparr>) =
      Returns (Some QuotaCheckFailed)"
    by (simp add: Admit_defs a_pipeline_def)
  show "\<exists>a. fst (Admit_org a init_Quota) \<noteq> fst (Admit_org a (snd (Admit_org a init_Quota)))"
    by (rule exI[of _ a_pipeline]) (simp add: o1 o2)
next
  have e1: "Admit_entitlement (entitled ''1'') a_pipeline init_UsedQuota =
      (Returns None, \<lparr>aspianHACBSUsedQuota = 1, bspianAppStudioUsedQuota = 0\<rparr>)"
    by (simp add: Admit_defs a_pipeline_def entitled_def init_UsedQuota_def Atoi_defs)
  have e2: "fst (Admit_entitlement (entitled ''1'') a_pipeline
        \<lparr>aspianHACBSUsedQuota = 1, bspianAppStudioUsedQuota = 0\<rparr>) = Returns (Some QuotaCheckFailed)"
    by (simp add: Admit_defs a_pipeline_def entitled_def Atoi_defs)
  show "\<exists>m a. fst (Admit_entitlement m a init_UsedQuota) \<noteq>
           fst (Admit_entitlement m a (snd (Admit_entitlement m a init_UsedQuota)))"
    by (rule exI[of _ "entitled ''1''"], rule exI[of _ a_pipeline]) (simp add: e1 e2)
next
  have e1: "Admit_entitlement (entitled ''1'') a_pipeline init_UsedQuota =
      (Returns None, \<lparr>aspianHACBSUsedQuota = 1, bspianAppStudioUsedQuota = 0\<rparr>)"
    by (simp add: Admit_defs a_pipeline_def entitled_def init_UsedQuota_def Atoi_defs)
  have e3: "fst (Admit_entitlement (entitled ''1'') a_other
        \<lparr>aspianHACBSUsedQuota = 1, bspianAppStudioUsedQuota = 0\<rparr>) = Returns (Some QuotaCheckFailed)"
    by (simp add: Admit_defs a_other_def entitled_def Atoi_defs)
  have e4: "fst (Admit_entitlement (entitled ''1'') a_other init_UsedQuota) = Returns None"
    by (simp add: Admit_defs a_other_def entitled_def init_UsedQuota_def Atoi_defs)
  have t: "tenant a_pipeline = ''aspian'' \<and> tenant a_other = ''other''"
    by (simp add: tenant_def a_pipeline_def a_other_def getTenantId_def HasPrefix_def)
  show "\<exists>m a b. tenant a \<noteq> tenant b \<and>
           fst (Admit_entitlement m b init_UsedQuota) \<noteq>
           fst (Admit_entitlement m b (snd (Admit_entitlement m a init_UsedQuota)))"
    by (rule exI[of _ "entitled ''1''"], rule exI[of _ a_pipeline], rule exI[of _ a_other])
       (simp add: e1 e3 e4 t)
qed

text \<open>
  C2. The three versions of \<open>Admit\<close> do not agree. A request for an object named
  \<^verbatim>\<open>data.my.domain\<close> by a user in no group is denied by the object-name version and
  admitted by the other two, whatever the counters, the index and the context. The
  entitlement version and the syncer document's version differ as well: a fresh process
  denies a Pipeline of \<^verbatim>\<open>org/aspian\<close> under an entitlement with limit 0 in the first and
  admits it in the second.
\<close>

theorem Admit_versions_disagree:
  "(\<exists>a. \<forall>m ctx q1 q2 q3.
       admitted (fst (Admit_entitlement m a q1)) \<and>
       \<not> admitted (fst (Admit_objectname ctx a q2)) \<and>
       admitted (fst (Admit_org a q3))) \<and>
   (\<exists>m a. \<not> admitted (fst (Admit_entitlement m a init_UsedQuota)) \<and>
       admitted (fst (Admit_org a init_Quota)))"
proof (intro conjI)
  have "admitted (fst (Admit_entitlement m a_domain q1))" for m q1
    by (simp add: Admit_defs a_domain_def)
  moreover have "\<not> admitted (fst (Admit_objectname ctx a_domain q2))" for ctx q2
    by (simp add: Admit_defs a_domain_def split: option.splits)
  moreover have "admitted (fst (Admit_org a_domain q3))" for q3
    by (simp add: Admit_defs a_domain_def)
  ultimately show "\<exists>a. \<forall>m ctx q1 q2 q3.
       admitted (fst (Admit_entitlement m a q1)) \<and>
       \<not> admitted (fst (Admit_objectname ctx a q2)) \<and>
       admitted (fst (Admit_org a q3))"
    by blast
next
  have "\<not> admitted (fst (Admit_entitlement (entitled ''0'') a_pipeline init_UsedQuota))"
    by (simp add: Admit_defs a_pipeline_def entitled_def init_UsedQuota_def Atoi_defs)
  moreover have "admitted (fst (Admit_org a_pipeline init_Quota))"
    by (simp add: Admit_defs a_pipeline_def init_Quota_def)
  ultimately show "\<exists>m a. \<not> admitted (fst (Admit_entitlement m a init_UsedQuota)) \<and>
       admitted (fst (Admit_org a init_Quota))"
    by blast
qed

text \<open>
  C3, as the code has it. In the two versions with fixed counters, take a request that
  reaches a quota block (syncer document: group \<^verbatim>\<open>org/aspian\<close> and kind \<^verbatim>\<open>Pipeline\<close>, or
  group \<^verbatim>\<open>org/bspian\<close> and kind \<^verbatim>\<open>App\<close>; object-name version: group \<^verbatim>\<open>aspian\<close> and
  object \<^verbatim>\<open>hacbs\<close>, or group \<^verbatim>\<open>bspian\<close> and object \<^verbatim>\<open>appstudio\<close>). In the syncer
  document's version it is denied exactly when the block's counter is zero at entry; in
  the object-name version it is denied exactly when the counter is zero at entry or the
  request context carries no cluster name. The counter is decremented by one, wrapping
  at 64 bits, whether the request is denied or not. After a denial at zero the counter
  is \<open>- 1\<close>, and in whatever requests follow, a request to the same block (with a cluster
  name, in the object-name version) is admitted when fewer than \<open>2 ^ 64 - 1\<close> requests
  to the block have been served between the denial and it.
\<close>

theorem fixed_counter_single_denial:
  "(requests_Pipeline a \<longrightarrow>
      (\<not> admitted (fst (Admit_org a q)) \<longleftrightarrow> aspianHACBSQuota q = 0) \<and>
      aspianHACBSQuota (snd (Admit_org a q)) = aspianHACBSQuota q - 1 \<and>
      (aspianHACBSQuota q = 0 \<longrightarrow>
         sint (aspianHACBSQuota (snd (Admit_org a q))) = - 1 \<and>
         (\<forall>as i. i < length as \<and> requests_Pipeline (as ! i) \<and>
                 length (filter requests_Pipeline (take i as)) < 2 ^ 64 - 1 \<longrightarrow>
                 admitted (fst (serve Admit_org as (snd (Admit_org a q))) ! i)))) \<and>
   (requests_App b \<longrightarrow>
      (\<not> admitted (fst (Admit_org b q)) \<longleftrightarrow> bspainAppStudioQuota q = 0) \<and>
      bspainAppStudioQuota (snd (Admit_org b q)) = bspainAppStudioQuota q - 1 \<and>
      (bspainAppStudioQuota q = 0 \<longrightarrow>
         sint (bspainAppStudioQuota (snd (Admit_org b q))) = - 1 \<and>
         (\<forall>as i. i < length as \<and> requests_App (as ! i) \<and>
                 length (filter requests_App (take i as)) < 2 ^ 64 - 1 \<longrightarrow>
                 admitted (fst (serve Admit_org as (snd (Admit_org b q))) ! i)))) \<and>
   (requests_hacbs r \<longrightarrow>
      (\<not> admitted (fst (case_prod Admit_objectname r p)) \<longleftrightarrow>
         aspianHACBSBindQuota p = 0 \<or> \<not> has_cluster r) \<and>
      aspianHACBSBindQuota (snd (case_prod Admit_objectname r p)) = aspianHACBSBindQuota p - 1 \<and>
      (aspianHACBSBindQuota p = 0 \<longrightarrow>
         sint (aspianHACBSBindQuota (snd (case_prod Admit_objectname r p))) = - 1 \<and>
         (\<forall>rs i. i < length rs \<and> requests_hacbs (rs ! i) \<and> has_cluster (rs ! i) \<and>
                 length (filter requests_hacbs (take i rs)) < 2 ^ 64 - 1 \<longrightarrow>
                 admitted (fst (serve (case_prod Admit_objectname) rs
                                  (snd (case_prod Admit_objectname r p))) ! i)))) \<and>
   (requests_appstudio s \<longrightarrow>
      (\<not> admitted (fst (case_prod Admit_objectname s p)) \<longleftrightarrow>
         bspainAppStudioBindQuota p = 0 \<or> \<not> has_cluster s) \<and>
      bspainAppStudioBindQuota (snd (case_prod Admit_objectname s p)) = bspainAppStudioBindQuota p - 1 \<and>
      (bspainAppStudioBindQuota p = 0 \<longrightarrow>
         sint (bspainAppStudioBindQuota (snd (case_prod Admit_objectname s p))) = - 1 \<and>
         (\<forall>rs i. i < length rs \<and> requests_appstudio (rs ! i) \<and> has_cluster (rs ! i) \<and>
                 length (filter requests_appstudio (take i rs)) < 2 ^ 64 - 1 \<longrightarrow>
                 admitted (fst (serve (case_prod Admit_objectname) rs
                                  (snd (case_prod Admit_objectname s p))) ! i))))"
proof -
  have 1: "\<forall>as i. i < length as \<and> requests_Pipeline (as ! i) \<and>
                 length (filter requests_Pipeline (take i as)) < 2 ^ 64 - 1 \<longrightarrow>
                 admitted (fst (serve Admit_org as (snd (Admit_org a q))) ! i)"
    if "requests_Pipeline a" "aspianHACBSQuota q = 0"
    using after_denial[of requests_Pipeline aspianHACBSQuota Admit_org requests_Pipeline a q]
      org_Pipeline_dec org_Pipeline_keep org_Pipeline_iff that by blast
  have 2: "\<forall>as i. i < length as \<and> requests_App (as ! i) \<and>
                 length (filter requests_App (take i as)) < 2 ^ 64 - 1 \<longrightarrow>
                 admitted (fst (serve Admit_org as (snd (Admit_org b q))) ! i)"
    if "requests_App b" "bspainAppStudioQuota q = 0"
    using after_denial[of requests_App bspainAppStudioQuota Admit_org requests_App b q]
      org_App_dec org_App_keep org_App_iff that by blast
  have 3: "\<forall>rs i. i < length rs \<and> requests_hacbs (rs ! i) \<and> has_cluster (rs ! i) \<and>
                 length (filter requests_hacbs (take i rs)) < 2 ^ 64 - 1 \<longrightarrow>
                 admitted (fst (serve (case_prod Admit_objectname) rs
                                  (snd (case_prod Admit_objectname r p))) ! i)"
    if "requests_hacbs r" "aspianHACBSBindQuota p = 0"
    using after_denial[of requests_hacbs aspianHACBSBindQuota "case_prod Admit_objectname"
        "\<lambda>r. requests_hacbs r \<and> has_cluster r" r p]
      objectname_hacbs_dec objectname_hacbs_keep objectname_hacbs_iff that by blast
  have 4: "\<forall>rs i. i < length rs \<and> requests_appstudio (rs ! i) \<and> has_cluster (rs ! i) \<and>
                 length (filter requests_appstudio (take i rs)) < 2 ^ 64 - 1 \<longrightarrow>
                 admitted (fst (serve (case_prod Admit_objectname) rs
                                  (snd (case_prod Admit_objectname s p))) ! i)"
    if "requests_appstudio s" "bspainAppStudioBindQuota p = 0"
    using after_denial[of requests_appstudio bspainAppStudioBindQuota "case_prod Admit_objectname"
        "\<lambda>r. requests_appstudio r \<and> has_cluster r" s p]
      objectname_appstudio_dec objectname_appstudio_keep objectname_appstudio_iff that by blast
  have 5: "\<not> admitted (fst (case_prod Admit_objectname r p)) \<longleftrightarrow>
      aspianHACBSBindQuota p = 0 \<or> \<not> has_cluster r" if "requests_hacbs r"
    using objectname_hacbs_iff[OF that, of p] objectname_hacbs_no_cluster[OF that, of p] by blast
  have 6: "\<not> admitted (fst (case_prod Admit_objectname s p)) \<longleftrightarrow>
      bspainAppStudioBindQuota p = 0 \<or> \<not> has_cluster s" if "requests_appstudio s"
    using objectname_appstudio_iff[OF that, of p] objectname_appstudio_no_cluster[OF that, of p]
    by blast
  show ?thesis
    using 1 2 3 4 5 6 org_Pipeline_dec[of a q] org_Pipeline_iff[of a q] org_App_dec[of b q]
      org_App_iff[of b q] objectname_hacbs_dec[of r p] objectname_appstudio_dec[of s p]
      sint_zero_pred
    by (intro conjI impI) simp_all
qed

theorem fixed_counter_single_denial_witness:
  "requests_Pipeline a_pipeline \<and> aspianHACBSQuota zero_Quota = 0 \<and>
   \<not> admitted (fst (Admit_org a_pipeline zero_Quota)) \<and>
   sint (aspianHACBSQuota (snd (Admit_org a_pipeline zero_Quota))) = - 1 \<and>
   admitted (fst (serve Admit_org [a_pipeline, a_app, a_pipeline]
                    (snd (Admit_org a_pipeline zero_Quota))) ! 2) \<and>
   requests_App a_app \<and> bspainAppStudioQuota zero_Quota = 0 \<and>
   \<not> admitted (fst (Admit_org a_app zero_Quota)) \<and>
   admitted (fst (serve Admit_org [a_app] (snd (Admit_org a_app zero_Quota))) ! 0) \<and>
   requests_hacbs (in_cluster, a_hacbs) \<and> has_cluster (in_cluster, a_hacbs) \<and>
   aspianHACBSBindQuota zero_BindQuota = 0 \<and>
   \<not> admitted (fst (Admit_objectname in_cluster a_hacbs zero_BindQuota)) \<and>
   admitted (fst (serve (case_prod Admit_objectname) [(in_cluster, a_hacbs)]
                    (snd (Admit_objectname in_cluster a_hacbs zero_BindQuota))) ! 0) \<and>
   requests_hacbs (no_cluster, a_hacbs) \<and> \<not> has_cluster (no_cluster, a_hacbs) \<and>
   \<not> admitted (fst (Admit_objectname no_cluster a_hacbs init_BindQuota)) \<and>
   requests_appstudio (in_cluster, a_appstudio) \<and> has_cluster (in_cluster, a_appstudio) \<and>
   bspainAppStudioBindQuota zero_BindQuota = 0 \<and>
   \<not> admitted (fst (Admit_objectname in_cluster a_appstudio zero_BindQuota)) \<and>
   admitted (fst (serve (case_prod Admit_objectname) [(in_cluster, a_appstudio)]
                    (snd (Admit_objectname in_cluster a_appstudio zero_BindQuota))) ! 0) \<and>
   requests_appstudio (no_cluster, a_appstudio) \<and> \<not> has_cluster (no_cluster, a_appstudio) \<and>
   \<not> admitted (fst (Admit_objectname no_cluster a_appstudio init_BindQuota))"
proof -
  note t = fixed_counter_single_denial[of a_pipeline zero_Quota a_app "(in_cluster, a_hacbs)"
      zero_BindQuota "(in_cluster, a_appstudio)"]
  note n = fixed_counter_single_denial[of a_pipeline zero_Quota a_app "(no_cluster, a_hacbs)"
      init_BindQuota "(no_cluster, a_appstudio)"]
  have a: "requests_Pipeline a_pipeline"
    by (simp add: request_defs a_pipeline_def)
  have b: "requests_App a_app"
    by (simp add: request_defs a_app_def)
  have na: "\<not> requests_Pipeline a_app"
    by (simp add: request_defs a_app_def)
  have r: "requests_hacbs (in_cluster, a_hacbs) \<and> has_cluster (in_cluster, a_hacbs)"
    by (simp add: request_defs a_hacbs_def in_cluster_def)
  have s: "requests_appstudio (in_cluster, a_appstudio) \<and> has_cluster (in_cluster, a_appstudio)"
    by (simp add: request_defs a_appstudio_def in_cluster_def)
  have r': "requests_hacbs (no_cluster, a_hacbs) \<and> \<not> has_cluster (no_cluster, a_hacbs)"
    by (simp add: request_defs a_hacbs_def no_cluster_def)
  have s': "requests_appstudio (no_cluster, a_appstudio) \<and> \<not> has_cluster (no_cluster, a_appstudio)"
    by (simp add: request_defs a_appstudio_def no_cluster_def)
  have z: "aspianHACBSQuota zero_Quota = 0 \<and> bspainAppStudioQuota zero_Quota = 0 \<and>
      aspianHACBSBindQuota zero_BindQuota = 0 \<and> bspainAppStudioBindQuota zero_BindQuota = 0"
    by (simp add: zero_Quota_def zero_BindQuota_def)
  have l1: "2 < length [a_pipeline, a_app, a_pipeline] \<and>
      requests_Pipeline ([a_pipeline, a_app, a_pipeline] ! 2) \<and>
      length (filter requests_Pipeline (take 2 [a_pipeline, a_app, a_pipeline])) < 2 ^ 64 - 1"
    using a na by simp
  have l2: "0 < length [a_app] \<and> requests_App ([a_app] ! 0) \<and>
      length (filter requests_App (take 0 [a_app])) < 2 ^ 64 - 1"
    using b by simp
  have l3: "0 < length [(in_cluster, a_hacbs)] \<and> requests_hacbs ([(in_cluster, a_hacbs)] ! 0) \<and>
      has_cluster ([(in_cluster, a_hacbs)] ! 0) \<and>
      length (filter requests_hacbs (take 0 [(in_cluster, a_hacbs)])) < 2 ^ 64 - 1"
    using r by simp
  have l4: "0 < length [(in_cluster, a_appstudio)] \<and>
      requests_appstudio ([(in_cluster, a_appstudio)] ! 0) \<and>
      has_cluster ([(in_cluster, a_appstudio)] ! 0) \<and>
      length (filter requests_appstudio (take 0 [(in_cluster, a_appstudio)])) < 2 ^ 64 - 1"
    using s by simp
  from t a z l1 have 1: "\<not> admitted (fst (Admit_org a_pipeline zero_Quota)) \<and>
      sint (aspianHACBSQuota (snd (Admit_org a_pipeline zero_Quota))) = - 1 \<and>
      admitted (fst (serve Admit_org [a_pipeline, a_app, a_pipeline]
                    (snd (Admit_org a_pipeline zero_Quota))) ! 2)"
    by blast
  from t b z l2 have 2: "\<not> admitted (fst (Admit_org a_app zero_Quota)) \<and>
      admitted (fst (serve Admit_org [a_app] (snd (Admit_org a_app zero_Quota))) ! 0)"
    by blast
  from t r z l3 have 3: "\<not> admitted (fst (case_prod Admit_objectname (in_cluster, a_hacbs) zero_BindQuota)) \<and>
      admitted (fst (serve (case_prod Admit_objectname) [(in_cluster, a_hacbs)]
                    (snd (case_prod Admit_objectname (in_cluster, a_hacbs) zero_BindQuota))) ! 0)"
    by blast
  from t s z l4 have 4: "\<not> admitted (fst (case_prod Admit_objectname (in_cluster, a_appstudio) zero_BindQuota)) \<and>
      admitted (fst (serve (case_prod Admit_objectname) [(in_cluster, a_appstudio)]
                    (snd (case_prod Admit_objectname (in_cluster, a_appstudio) zero_BindQuota))) ! 0)"
    by blast
  from n r' have 5: "\<not> admitted (fst (case_prod Admit_objectname (no_cluster, a_hacbs) init_BindQuota))"
    by blast
  from n s' have 6: "\<not> admitted (fst (case_prod Admit_objectname (no_cluster, a_appstudio) init_BindQuota))"
    by blast
  from a b r s r' s' z 1 2 3 4 5 6 show ?thesis
    by (simp only: case_prod_conv) blast
qed

text \<open>
  C3 as stated fails in two places. In the object-name version a request to the
  \<^verbatim>\<open>hacbs\<close> block whose context carries no cluster name is denied although the counter
  is 5: \<^verbatim>\<open>err\<close> already holds the error of \<^verbatim>\<open>ClusterNameFrom\<close>. And not every later request
  is admitted: the counter wraps around, so after the denial and \<open>2 ^ 64 - 1\<close> further
  requests to the block it is zero again and the next request is denied.
\<close>

theorem denial_not_single_counterexample:
  "requests_hacbs (no_cluster, a_hacbs) \<and>
   aspianHACBSBindQuota init_BindQuota = 5 \<and>
   \<not> admitted (fst (Admit_objectname no_cluster a_hacbs init_BindQuota)) \<and>
   requests_Pipeline a_pipeline \<and>
   aspianHACBSQuota zero_Quota = 0 \<and>
   \<not> admitted (fst (Admit_org a_pipeline
        (snd (serve Admit_org (replicate (2 ^ 64 - 1) a_pipeline)
               (snd (Admit_org a_pipeline zero_Quota))))))"
proof -
  have p: "requests_Pipeline a_pipeline"
    by (simp add: request_defs a_pipeline_def)
  have h: "requests_hacbs (no_cluster, a_hacbs)"
    by (simp add: request_defs a_hacbs_def)
  have d: "\<not> admitted (fst (Admit_objectname no_cluster a_hacbs init_BindQuota))"
    by (simp add: Admit_objectname_def a_hacbs_def no_cluster_def init_BindQuota_def
        ClusterNameFrom_def block_defs admitted_def)
  have "aspianHACBSQuota (snd (serve Admit_org (replicate n a_pipeline) q)) = aspianHACBSQuota q - of_nat n" for n q
    using serve_replicate[of aspianHACBSQuota Admit_org a_pipeline n q] org_Pipeline_dec[OF p]
    by blast
  then have "aspianHACBSQuota (snd (serve Admit_org (replicate (2 ^ 64 - 1) a_pipeline)
               (snd (Admit_org a_pipeline zero_Quota))))
        = aspianHACBSQuota (snd (Admit_org a_pipeline zero_Quota)) - of_nat (2 ^ 64 - 1)"
    by blast
  also have "\<dots> = (aspianHACBSQuota zero_Quota - 1) - of_nat (2 ^ 64 - 1)"
    by (simp only: org_Pipeline_dec[OF p])
  also have "\<dots> = 0"
    by (simp only: of_nat_max_go_int) (simp add: zero_Quota_def)
  finally have "\<not> admitted (fst (Admit_org a_pipeline
        (snd (serve Admit_org (replicate (2 ^ 64 - 1) a_pipeline)
               (snd (Admit_org a_pipeline zero_Quota))))))"
    by (simp only: org_Pipeline_iff[OF p] not_not)
  with p h d show ?thesis
    by (simp add: init_BindQuota_def zero_Quota_def)
qed

text \<open>
  C4. In the entitlement version, take a request for kind \<^verbatim>\<open>Pipeline\<close> by a user in
  \<^verbatim>\<open>org/aspian\<close> (or for kind \<^verbatim>\<open>App\<close> by a user in \<^verbatim>\<open>org/bspian\<close>) whose tenant's logical
  cluster holds the entitlements \<open>entitlements\<close>. The handler reads
  \<^verbatim>\<open>QuotaItems[0]\<close> of each entitlement without a check of the length: when the first
  entitlement has no quota items the call panics with an index out of range and leaves
  the counters as they were, and when any entitlement has none the request is not
  admitted (the call panics there, unless an earlier entitlement has denied it).
\<close>

theorem QuotaItems_indexed_unchecked:
  assumes "GetSubresource a = ''''" "GetObject a = MetaObject name" "GetUserInfo a = Some user"
      and "(isPresentInArray ''org/aspian'' (GetGroups user) \<and> GetKind a = ''Pipeline'') \<or>
           (isPresentInArray ''org/bspian'' (GetGroups user) \<and> GetKind a = ''App'')"
      and "getTenantId user \<noteq> ''''"
      and "entitlementIndexer m (''root:'' @ getTenantId user) = Inr entitlements"
  shows "(\<forall>entitlement rest. entitlements = entitlement # rest \<and> QuotaItems (Spec entitlement) = [] \<longrightarrow>
            Admit_entitlement m a q = (Panics IndexOutOfRange, q)) \<and>
         (\<forall>entitlement. entitlement \<in> set entitlements \<and> QuotaItems (Spec entitlement) = [] \<longrightarrow>
            \<not> admitted (fst (Admit_entitlement m a q)))"
proof -
  have "Admit_entitlement m a q = entitlements_loop user (GetKind a) entitlements q"
    using assms by (simp add: Admit_entitlement_def)
  then show ?thesis
    using loop_first_no_items[OF assms(4)] loop_some_no_items[OF assms(4)] by auto
qed

theorem QuotaItems_indexed_unchecked_witness:
  "GetSubresource a_pipeline = '''' \<and> GetObject a_pipeline = MetaObject ''build'' \<and>
   GetUserInfo a_pipeline = Some \<lparr>GetName = ''alice'', GetGroups = [''org/aspian'']\<rparr> \<and>
   isPresentInArray ''org/aspian'' [''org/aspian''] \<and> GetKind a_pipeline = ''Pipeline'' \<and>
   getTenantId \<lparr>GetName = ''alice'', GetGroups = [''org/aspian'']\<rparr> = ''aspian'' \<and>
   entitlementIndexer no_items ''root:aspian'' = Inr [\<lparr>Spec = \<lparr>QuotaItems = []\<rparr>\<rparr>] \<and>
   Admit_entitlement no_items a_pipeline init_UsedQuota = (Panics IndexOutOfRange, init_UsedQuota) \<and>
   \<not> admitted (fst (Admit_entitlement no_items a_pipeline init_UsedQuota))"
proof -
  let ?u = "\<lparr>GetName = ''alice'', GetGroups = [''org/aspian'']\<rparr>"
  have 1: "GetSubresource a_pipeline = ''''" by (simp add: a_pipeline_def)
  have 2: "GetObject a_pipeline = MetaObject ''build''" by (simp add: a_pipeline_def)
  have 3: "GetUserInfo a_pipeline = Some ?u" by (simp add: a_pipeline_def)
  have 4: "(isPresentInArray ''org/aspian'' (GetGroups ?u) \<and> GetKind a_pipeline = ''Pipeline'') \<or>
           (isPresentInArray ''org/bspian'' (GetGroups ?u) \<and> GetKind a_pipeline = ''App'')"
    by (simp add: a_pipeline_def)
  have t: "getTenantId ?u = ''aspian''" by (simp add: getTenantId_def HasPrefix_def)
  have 5: "getTenantId ?u \<noteq> ''''" by (simp add: t)
  have 6: "entitlementIndexer no_items (''root:'' @ getTenantId ?u) = Inr [\<lparr>Spec = \<lparr>QuotaItems = []\<rparr>\<rparr>]"
    by (simp add: no_items_def)
  show ?thesis
    using QuotaItems_indexed_unchecked[OF 1 2 3 4 5 6, of init_UsedQuota] 1 2 3 4 t 6
    by (simp add: admitted_def)
qed

text \<open>
  C10. A request with a non-empty subresource (a status update, say) returns nil at once
  in all three versions and leaves the counters as they were.
\<close>

theorem subresource_not_quota_checked:
  assumes "GetSubresource a \<noteq> ''''"
  shows "Admit_entitlement m a q1 = (Returns None, q1) \<and>
         Admit_objectname ctx a q2 = (Returns None, q2) \<and>
         Admit_org a q3 = (Returns None, q3)"
  using assms by (simp add: Admit_entitlement_def Admit_objectname_def Admit_org_def)

theorem subresource_not_quota_checked_witness:
  "GetSubresource a_status \<noteq> '''' \<and>
   Admit_entitlement (entitled ''0'') a_status init_UsedQuota = (Returns None, init_UsedQuota) \<and>
   Admit_objectname no_cluster a_status init_BindQuota = (Returns None, init_BindQuota) \<and>
   Admit_org a_status init_Quota = (Returns None, init_Quota)"
proof -
  have s: "GetSubresource a_status \<noteq> ''''"
    by (simp add: a_status_def)
  show ?thesis
    using s subresource_not_quota_checked[OF s, of "entitled ''0''" init_UsedQuota no_cluster
        init_BindQuota init_Quota]
    by simp
qed

section \<open>Properties of placement and sync\<close>

subsection \<open>The Location Resolver keeps the counts\<close>

lemma selects_cong:
  "l_selector L' = l_selector L \<Longrightarrow> l_resource L' = l_resource L \<Longrightarrow> selects L' t = selects L t"
  by (cases "l_selector L") (simp_all add: selects_def)

lemma selects_ready [simp]: "selects L (t\<lparr>t_ready := r\<rparr>) = selects L t"
  by (simp add: selects_def split: selector.splits)

lemma ready_matching_cong:
  "l_selector L' = l_selector L \<Longrightarrow> l_resource L' = l_resource L \<Longrightarrow>
   ready_matching L' ts = ready_matching L ts"
  using selects_cong[of L' L] by (simp add: ready_matching_def)

lemma recompute_keeps [simp]:
  "l_selector (recompute ts L) = l_selector L" "l_resource (recompute ts L) = l_resource L"
  "l_name (recompute ts L) = l_name L"
  by (auto simp: recompute_def split: selector.splits)

lemma wellformed_recompute [simp]: "wellformed (recompute ts L) = wellformed L"
  by (simp add: wellformed_def)

lemma selects_recompute [simp]: "selects (recompute ts L) t = selects L t"
  by (rule selects_cong) simp_all

lemma triggers_recompute [simp]: "triggers e (recompute ts L) = triggers e L"
  by (cases e) simp_all












lemma reconcile_placement_frame [simp]:
  "locations (reconcile_placement p s) = locations s"
  "targets (reconcile_placement p s) = targets s"
  "pending (reconcile_placement p s) = pending s"
  "downstream (reconcile_placement p s) = downstream s"
  by (simp_all add: reconcile_placement_def split: option.splits)

lemma Reconcile_frame [simp]:
  "locations (Reconcile ws s) = locations s"
  "targets (Reconcile ws s) = targets s"
  "pending (Reconcile ws s) = pending s"
  "downstream (Reconcile ws s) = downstream s"
  by (simp_all add: Reconcile_def split: option.splits)

lemma Bind_frame [simp]:
  "locations (Bind ws n s) = locations s"
  "targets (Bind ws n s) = targets s"
  "pending (Bind ws n s) = pending s"
  "downstream (Bind ws n s) = downstream s"
  by (simp_all add: Bind_def)

lemma Unbind_workspace_frame [simp]:
  "locations (Unbind_workspace ws s) = locations s"
  "targets (Unbind_workspace ws s) = targets s"
  "pending (Unbind_workspace ws s) = pending s"
  "downstream (Unbind_workspace ws s) = downstream s"
  by (simp_all add: Unbind_workspace_def)

lemma CreateNamespace_frame [simp]:
  "locations (CreateNamespace ws n s) = locations s"
  "targets (CreateNamespace ws n s) = targets s"
  "pending (CreateNamespace ws n s) = pending s"
  "downstream (CreateNamespace ws n s) = downstream s"
  by (simp_all add: CreateNamespace_def)

lemma Create_frame [simp]:
  "locations (Create obj s) = locations s"
  "targets (Create obj s) = targets s"
  "pending (Create obj s) = pending s"
  "downstream (Create obj s) = downstream s"
  by (simp_all add: Create_def)

lemma SyncDown_frame [simp]:
  "locations (SyncDown k r reachable s) = locations s"
  "targets (SyncDown k r reachable s) = targets s"
  "pending (SyncDown k r reachable s) = pending s"
  by (simp_all add: SyncDown_def Let_def split: option.splits)

lemma Observe_frame [simp]:
  "locations (Observe k r st s) = locations s"
  "targets (Observe k r st s) = targets s"
  "pending (Observe k r st s) = pending s"
  by (simp_all add: Observe_def)

lemma SyncUp_frame [simp]:
  "locations (SyncUp k r s) = locations s"
  "targets (SyncUp k r s) = targets s"
  "pending (SyncUp k r s) = pending s"
  "downstream (SyncUp k r s) = downstream s"
  by (simp_all add: SyncUp_def split: option.splits)

lemma registry_frame [simp]:
  "downstream (Register nm uid ls kinds s) = downstream s"
  "downstream (Heartbeat uid r s) = downstream s"
  "downstream (Deregister uid s) = downstream s"
  "downstream (CreateLocation L s) = downstream s"
  "downstream (Resolve s) = downstream s"
  by (simp_all add: Register_def Heartbeat_def Deregister_def CreateLocation_def Resolve_def Let_def
      split: list.splits)




lemma Resolve_targets [simp]: "targets (Resolve s) = targets s"
  by (simp add: Resolve_def split: list.splits)


lemma Resolve_times_targets [simp]: "targets (Resolve_times n s) = targets s"
  by (induction n arbitrary: s) simp_all






subsection \<open>The state machine of one object on one target\<close>




lemma fsm_trace_length: "length (fsm_trace es u) = Suc (length es)"
  by (induction es arbitrary: u) auto



subsection \<open>Labels\<close>

lemma mirror_of_labelled:
  "map_of (m_labels (mirror_of k obj existing)) ''internal.workload.kcp.dev/cluster'' = Some k \<and>
   m_target (mirror_of k obj existing) = k"
  by (simp add: mirror_of_def cluster_label_key_def update_conv')

lemma find_mirror_in: "find_mirror k r mirs = Some mir \<Longrightarrow> mir \<in> set mirs"
  by (induction mirs) (auto split: if_splits)

lemma find_mirror_filter [simp]:
  "find_mirror k r (filter (\<lambda>mir. \<not> (m_target mir = k \<and> source_of mir = r)) mirs) = None"
  by (induction mirs) auto

lemma find_mirror_filter' [simp]:
  "find_mirror k r (filter (\<lambda>mir. m_target mir = k \<longrightarrow> source_of mir \<noteq> r) mirs) = None"
  by (induction mirs) auto

lemma put_mirror_labelled:
  assumes "provenance_labelled mirs"
      and "\<And>mir. new = Some mir \<Longrightarrow>
             map_of (m_labels mir) ''internal.workload.kcp.dev/cluster'' = Some (m_target mir)"
  shows "provenance_labelled (put_mirror k r new mirs)"
  using assms by (auto simp: provenance_labelled_def put_mirror_def split: option.splits)

lemma fsm_agent_mirror:
  "snd (fsm_step (AgentReconcile reachable apply) (i, m)) = Some x \<Longrightarrow> x = apply m \<or> m = Some x"
  by (cases "(AgentReconcile reachable apply, (i, m))" rule: fsm_step.cases)
     (auto split: if_splits)

lemma labelled_SyncDown:
  assumes "provenance_labelled (downstream s)"
  shows "provenance_labelled (downstream (SyncDown k r reachable s))"
proof (cases "find_object r (upstream s)")
  case None
  then show ?thesis using assms by (simp add: SyncDown_def)
next
  case (Some obj)
  let ?u = "(intent_of k (o_labels obj), find_mirror k r (downstream s))"
  let ?u' = "fsm_step (AgentReconcile reachable (mirror_of k obj)) ?u"
  have new: "map_of (m_labels mir) ''internal.workload.kcp.dev/cluster'' = Some (m_target mir)"
    if "snd ?u' = Some mir" for mir
  proof -
    from that have "mir = mirror_of k obj (find_mirror k r (downstream s)) \<or>
        find_mirror k r (downstream s) = Some mir"
      by (rule fsm_agent_mirror)
    then show ?thesis
    proof
      assume "mir = mirror_of k obj (find_mirror k r (downstream s))"
      then show ?thesis using mirror_of_labelled by simp
    next
      assume "find_mirror k r (downstream s) = Some mir"
      then have "mir \<in> set (downstream s)" by (rule find_mirror_in)
      then show ?thesis using assms by (simp add: provenance_labelled_def)
    qed
  qed
  have "provenance_labelled (put_mirror k r (snd ?u') (downstream s))"
    using assms new by (rule put_mirror_labelled)
  then show ?thesis
    using Some assms by (simp add: SyncDown_def Let_def)
qed

lemma labelled_Observe:
  "provenance_labelled (downstream s) \<Longrightarrow> provenance_labelled (downstream (Observe k r st s))"
  by (auto simp: provenance_labelled_def Observe_def)

lemma labelled_step:
  "provenance_labelled (downstream s) \<Longrightarrow> provenance_labelled (downstream (step x s))"
  by (cases x) (simp_all add: labelled_SyncDown labelled_Observe)

lemma labelled_run:
  "provenance_labelled (downstream s) \<Longrightarrow> provenance_labelled (downstream (run xs s))"
  by (induction xs arbitrary: s) (simp_all add: labelled_step)

lemma read_intent_Sync: "read_intent v = Some Sync \<Longrightarrow> v = Some ''Sync''"
  by (auto simp: read_intent_def split: option.splits if_splits)

lemma fsm_agent_writes:
  "snd (fsm_step (AgentReconcile reachable apply) (i, m)) = Some x \<Longrightarrow> m \<noteq> Some x \<Longrightarrow> i = Some Sync"
  by (cases "(AgentReconcile reachable apply, (i, m))" rule: fsm_step.cases)
     (auto split: if_splits)

lemma SyncDown_writes_for_Sync:
  assumes "find_mirror k r (downstream (SyncDown k r reachable s)) = Some mir"
      and "find_mirror k r (downstream s) \<noteq> Some mir"
  shows "\<exists>obj. find_object r (upstream s) = Some obj \<and>
           map_of (o_labels obj) (''state.workload.kcp.dev/'' @ k) = Some ''Sync''"
proof (cases "find_object r (upstream s)")
  case None
  then show ?thesis using assms by (simp add: SyncDown_def)
next
  case (Some obj)
  let ?m = "find_mirror k r (downstream s)"
  let ?u' = "fsm_step (AgentReconcile reachable (mirror_of k obj)) (intent_of k (o_labels obj), ?m)"
  have d: "downstream (SyncDown k r reachable s) =
      (if snd ?u' = ?m then downstream s else put_mirror k r (snd ?u') (downstream s))"
    using Some by (simp add: SyncDown_def Let_def)
  have ne: "snd ?u' \<noteq> ?m"
    using assms d by auto
  then obtain x where x: "snd ?u' = Some x"
    using assms d by (cases "snd ?u'") (auto simp: put_mirror_def)
  have "intent_of k (o_labels obj) = Some Sync"
    using fsm_agent_writes[OF x] ne x by auto
  then have "map_of (o_labels obj) (state_label_key k) = Some ''Sync''"
    unfolding intent_of_def by (rule read_intent_Sync)
  then show ?thesis
    using Some by (simp add: state_label_key_def)
qed

lemma map_of_map_keep:
  assumes "\<And>kv. fst (f kv) = fst kv" "\<And>kv. fst kv = key \<Longrightarrow> f kv = kv"
  shows "map_of (map f ls) key = map_of ls key"
proof (induction ls)
  case Nil
  then show ?case by simp
next
  case (Cons kv ls)
  obtain a b where kv: "kv = (a, b)" by (cases kv)
  obtain a' b' where f: "f (a, b) = (a', b')" by (cases "f (a, b)")
  have "a' = a" using assms(1)[of "(a, b)"] f by simp
  moreover have "a = key \<Longrightarrow> b' = b" using assms(2)[of "(a, b)"] f by simp
  ultimately show ?case using Cons kv f by auto
qed

lemma assign_intent_key:
  "map_of (assign_intent k ls) (''state.workload.kcp.dev/'' @ k) =
     (case map_of ls (''state.workload.kcp.dev/'' @ k) of None \<Rightarrow> Some ''Sync'' | Some v \<Rightarrow> Some v)"
proof -
  let ?f = "\<lambda>kv. if fst kv = state_label_key k then kv else retire kv"
  have "map_of (map ?f ls) (state_label_key k) = map_of ls (state_label_key k)"
    by (rule map_of_map_keep) (simp_all add: retire_def)
  then show ?thesis
    by (simp add: assign_intent_def Let_def state_label_key_def update_conv' split: option.splits)
qed

subsection \<open>Evaluating executions\<close>

lemmas op_defs = Register_def Heartbeat_def Deregister_def CreateLocation_def Resolve_def
  Bind_def Reconcile_def reconcile_placement_def Unbind_workspace_def CreateNamespace_def
  Create_def SyncDown_def Observe_def SyncUp_def Let_def init_kcp_def
  recompute_def ready_matching_def selects_def eligible_def choose_target_def syncable_def
  ref_of_def source_of_def mirror_of_def put_mirror_def intent_of_def read_intent_def
  write_intent_def intent_value_def assign_intent_def retire_def retire_all_def is_state_key_def
  HasPrefix_def state_label_key_def cluster_label_key_def synctargets_def

lemmas scenario_defs = register_and_locate_def Service_def us_east1_def

section \<open>The claims about placement and sync\<close>

text \<open>
  C5. The labels of sync. In every execution of the system from its start, every
  downstream mirror carries the label \<^verbatim>\<open>internal.workload.kcp.dev/cluster\<close> with the key
  of the target that owns it. The Sync Agent of a target writes a mirror of an object
  only when the object carries the label \<^verbatim>\<open>state.workload.kcp.dev/<target-key>\<close> with
  the value \<^verbatim>\<open>Sync\<close>; and that is the label the Placement Engine gives an object that
  has no intent for the target it assigns.
\<close>

theorem sync_labels:
  "provenance_labelled (downstream (run xs init_kcp)) \<and>
   (find_mirror k r (downstream (SyncDown k r reachable s)) = Some mir \<and>
    find_mirror k r (downstream s) \<noteq> Some mir \<longrightarrow>
      (\<exists>obj. find_object r (upstream s) = Some obj \<and>
             map_of (o_labels obj) (''state.workload.kcp.dev/'' @ k) = Some ''Sync'')) \<and>
   (map_of ls (''state.workload.kcp.dev/'' @ k) = None \<longrightarrow>
      map_of (assign_intent k ls) (''state.workload.kcp.dev/'' @ k) = Some ''Sync'')"
proof (intro conjI impI)
  have "provenance_labelled (downstream init_kcp)"
    by (simp add: provenance_labelled_def init_kcp_def)
  then show "provenance_labelled (downstream (run xs init_kcp))"
    by (rule labelled_run)
next
  assume "find_mirror k r (downstream (SyncDown k r reachable s)) = Some mir \<and>
    find_mirror k r (downstream s) \<noteq> Some mir"
  then show "\<exists>obj. find_object r (upstream s) = Some obj \<and>
      map_of (o_labels obj) (''state.workload.kcp.dev/'' @ k) = Some ''Sync''"
    using SyncDown_writes_for_Sync[of k r reachable s mir] by blast
next
  assume "map_of ls (''state.workload.kcp.dev/'' @ k) = None"
  then show "map_of (assign_intent k ls) (''state.workload.kcp.dev/'' @ k) = Some ''Sync''"
    using assign_intent_key[of k ls] by simp
qed

theorem sync_labels_witness:
  "provenance_labelled (downstream (run (TestScheduling ''synctarget-1'' ''key1'' ''root:org:user''
       ''root:org:second'') init_kcp)) \<and>
   map m_labels (downstream (run (TestScheduling ''synctarget-1'' ''key1'' ''root:org:user''
       ''root:org:second'') init_kcp)) =
     [[(''state.workload.kcp.dev/key1'', ''Sync''), (''internal.workload.kcp.dev/cluster'', ''key1'')],
      [(''state.workload.kcp.dev/key1'', ''Sync''), (''internal.workload.kcp.dev/cluster'', ''key1'')]] \<and>
   map m_name (list_by_label ''internal.workload.kcp.dev/cluster'' ''key1''
     (downstream (run (TestScheduling ''synctarget-1'' ''key1'' ''root:org:user''
       ''root:org:second'') init_kcp))) = [''first'', ''second''] \<and>
   find_mirror ''key1'' (''w'', ''default'', ''services'', ''first'')
     (downstream (SyncDown ''key1'' (''w'', ''default'', ''services'', ''first'') True
        (run [OpCreateNamespace ''w'' ''default'',
              OpCreate (Service ''w'' ''default'' ''first'' [(state_label_key ''key1'', ''Sync'')])]
           init_kcp))) =
     Some (mirror_of ''key1''
        (Service ''w'' ''default'' ''first'' [(state_label_key ''key1'', ''Sync'')]) None) \<and>
   find_mirror ''key1'' (''w'', ''default'', ''services'', ''first'')
     (downstream (run [OpCreateNamespace ''w'' ''default'',
              OpCreate (Service ''w'' ''default'' ''first'' [(state_label_key ''key1'', ''Sync'')])]
           init_kcp)) = None \<and>
   map_of (o_labels (Service ''w'' ''default'' ''first'' [(state_label_key ''key1'', ''Sync'')]))
     ''state.workload.kcp.dev/key1'' = Some ''Sync'' \<and>
   map_of [(''app'', ''shop'')] (''state.workload.kcp.dev/'' @ ''key1'') = None \<and>
   map_of (assign_intent ''key1'' [(''app'', ''shop'')]) ''state.workload.kcp.dev/key1'' =
     Some ''Sync''"
proof -
  let ?r = "(''w'', ''default'', ''services'', ''first'')"
  let ?obj = "Service ''w'' ''default'' ''first'' [(state_label_key ''key1'', ''Sync'')]"
  let ?s = "run [OpCreateNamespace ''w'' ''default'', OpCreate ?obj] init_kcp"
  note t = sync_labels[of "TestScheduling ''synctarget-1'' ''key1'' ''root:org:user''
      ''root:org:second''" "''key1''" ?r True ?s "mirror_of ''key1'' ?obj None" "[(''app'', ''shop'')]"]
  have 1: "map m_labels (downstream (run (TestScheduling ''synctarget-1'' ''key1'' ''root:org:user''
       ''root:org:second'') init_kcp)) =
     [[(''state.workload.kcp.dev/key1'', ''Sync''), (''internal.workload.kcp.dev/cluster'', ''key1'')],
      [(''state.workload.kcp.dev/key1'', ''Sync''), (''internal.workload.kcp.dev/cluster'', ''key1'')]]"
    by (simp add: TestScheduling_def two_workspaces_def list_by_label_def scenario_defs op_defs)
  have names: "map m_name (list_by_label ''internal.workload.kcp.dev/cluster'' ''key1''
     (downstream (run (TestScheduling ''synctarget-1'' ''key1'' ''root:org:user''
       ''root:org:second'') init_kcp))) = [''first'', ''second'']"
    by (simp add: TestScheduling_def two_workspaces_def list_by_label_def scenario_defs op_defs)
  have 2: "find_mirror ''key1'' ?r (downstream (SyncDown ''key1'' ?r True ?s)) =
      Some (mirror_of ''key1'' ?obj None)"
    by (simp add: TestScheduling_def two_workspaces_def list_by_label_def scenario_defs op_defs)
  have 3: "find_mirror ''key1'' ?r (downstream ?s) = None"
    by (simp add: TestScheduling_def two_workspaces_def list_by_label_def scenario_defs op_defs)
  have 4: "map_of [(''app'', ''shop'')] (''state.workload.kcp.dev/'' @ ''key1'') = None"
    by simp
  have 5: "find_object ?r (upstream ?s) = Some ?obj"
    by (simp add: TestScheduling_def two_workspaces_def list_by_label_def scenario_defs op_defs)
  from t 2 3 5 have 6: "map_of (o_labels ?obj) (''state.workload.kcp.dev/'' @ ''key1'') = Some ''Sync''"
    by auto
  from t 4 have 7: "map_of (assign_intent ''key1'' [(''app'', ''shop'')])
      (''state.workload.kcp.dev/'' @ ''key1'') = Some ''Sync''"
    by blast
  from t 1 names 2 3 6 7 show ?thesis
    by simp
qed




text \<open>
  C7. From the start of the system: a target that supports \<^verbatim>\<open>services\<close> registers and
  reports ready, a Location that selects it is created and resolved (one available
  instance), a workspace is bound to the Location, and a Service named \<^verbatim>\<open>first\<close> is
  created in a namespace of the workspace, with the test's intent label or with no
  label. After the Placement Engine and the Sync Agent of the target have reconciled,
  the target holds exactly one mirror: it is named \<^verbatim>\<open>first\<close> and carries the label
  \<^verbatim>\<open>internal.workload.kcp.dev/cluster\<close> with the key of the target. The namespace of the
  Service carries the placement annotation, and the Placement is bound to the target.
\<close>

theorem first_Service_mirrored:
  assumes "''services'' \<in> set kinds"
      and "l_selector L = MatchLabels required" "has_labels required ls" "l_resource L = synctargets"
      and "service_labels = [] \<or> service_labels = [(''state.workload.kcp.dev/'' @ k, ''Sync'')]"
  shows "downstream (run (one_workspace nm k ls kinds L ws ns ''first'' service_labels) init_kcp) =
           [\<lparr>m_workspace = ws, m_namespace = ns, m_kind = ''services'', m_name = ''first'',
             m_target = k,
             m_labels = [(''state.workload.kcp.dev/'' @ k, ''Sync''),
                         (''internal.workload.kcp.dev/cluster'', k)],
             m_spec = ''port 80/TCP'', m_status = ''''\<rparr>] \<and>
         namespaces (run (one_workspace nm k ls kinds L ws ns ''first'' service_labels) init_kcp) =
           [\<lparr>ns_workspace = ws, ns_name = ns,
             ns_annotations = [(PlacementAnnotationKey, ws @ ''/'' @ k)]\<rparr>] \<and>
         placements (run (one_workspace nm k ls kinds L ws ns ''first'' service_labels) init_kcp) =
           [\<lparr>p_workspace = ws, p_location = l_name L, p_phase = Bound, p_target = Some k\<rparr>] \<and>
         map AvailableInstances
           (locations (run (one_workspace nm k ls kinds L ws ns ''first'' service_labels) init_kcp)) =
           [Some 1]"
  using assms by (auto simp: one_workspace_def scenario_defs op_defs)

theorem first_Service_mirrored_witness:
  "''services'' \<in> set [''services''] \<and> l_selector us_east1 = MatchLabels [] \<and> has_labels [] [] \<and>
   l_resource us_east1 = synctargets \<and>
   downstream (run (one_workspace ''synctarget-1'' ''key1'' [] [''services''] us_east1
       ''root:org:user'' ''default'' ''first'' [(''state.workload.kcp.dev/'' @ ''key1'', ''Sync'')])
     init_kcp) =
     [\<lparr>m_workspace = ''root:org:user'', m_namespace = ''default'', m_kind = ''services'',
       m_name = ''first'', m_target = ''key1'',
       m_labels = [(''state.workload.kcp.dev/key1'', ''Sync''),
                   (''internal.workload.kcp.dev/cluster'', ''key1'')],
       m_spec = ''port 80/TCP'', m_status = ''''\<rparr>] \<and>
   map (\<lambda>ns. map_of (ns_annotations ns) PlacementAnnotationKey)
     (namespaces (run (one_workspace ''synctarget-1'' ''key1'' [] [''services''] us_east1
       ''root:org:user'' ''default'' ''first'' [(''state.workload.kcp.dev/'' @ ''key1'', ''Sync'')])
     init_kcp)) = [Some ''root:org:user/key1'']"
proof -
  have 1: "''services'' \<in> set [''services'']" by simp
  have 2: "l_selector us_east1 = MatchLabels []" by (simp add: us_east1_def)
  have 3: "has_labels [] []" by simp
  have 4: "l_resource us_east1 = synctargets" by (simp add: us_east1_def)
  have 5: "[(''state.workload.kcp.dev/'' @ ''key1'', ''Sync'')] = [] \<or>
      [(''state.workload.kcp.dev/'' @ ''key1'', ''Sync'')] =
      [(''state.workload.kcp.dev/'' @ ''key1'', ''Sync'')]" by simp
  show ?thesis
    using first_Service_mirrored[OF 1 2 3 4 5, of "''synctarget-1''" "''root:org:user''" "''default''"]
      1 2 3 4
    by simp
qed




end
